theory Spec2Isabelle
  imports Main "HOL-Library.AList" "HOL-Library.Word"
begin

section \<open>ERC-20 call data and transfer logs\<close>

subsection \<open>Fragments and interfaces\<close>

datatype AbiType = TAddress | TUint nat | TBytes nat | TString | TBool

record FunctionFragment =
  fragmentName :: string
  inputs :: "(AbiType \<times> string) list"

record EventFragment =
  eventName :: string
  eventInputs :: "(AbiType \<times> string) list"

datatype Fragment = Function FunctionFragment | Event EventFragment

text \<open>\<open>FunctionFragment.from\<close> of the signatures of the source; \<open>uint\<close> is \<open>uint256\<close>.\<close>

definition ERC20_FUNCTIONS :: "(string \<times> FunctionFragment) list" where
  "ERC20_FUNCTIONS =
     [(''allowance'', \<lparr>fragmentName = ''allowance'', inputs = [(TAddress, ''owner''), (TAddress, ''spender'')]\<rparr>),
      (''approve'', \<lparr>fragmentName = ''approve'', inputs = [(TAddress, ''spender''), (TUint 256, ''value'')]\<rparr>),
      (''balanceOf'', \<lparr>fragmentName = ''balanceOf'', inputs = [(TAddress, ''owner'')]\<rparr>),
      (''decimals'', \<lparr>fragmentName = ''decimals'', inputs = []\<rparr>),
      (''name'', \<lparr>fragmentName = ''name'', inputs = []\<rparr>),
      (''symbol'', \<lparr>fragmentName = ''symbol'', inputs = []\<rparr>),
      (''totalSupply'', \<lparr>fragmentName = ''totalSupply'', inputs = []\<rparr>),
      (''transfer'', \<lparr>fragmentName = ''transfer'', inputs = [(TAddress, ''to''), (TUint 256, ''amount'')]\<rparr>),
      (''transferFrom'', \<lparr>fragmentName = ''transferFrom'',
         inputs = [(TAddress, ''from''), (TAddress, ''to''), (TUint 256, ''amount'')]\<rparr>)]"

definition ERC20_EVENTS :: "(string \<times> EventFragment) list" where
  "ERC20_EVENTS =
     [(''Transfer'', \<lparr>eventName = ''Transfer'',
         eventInputs = [(TAddress, ''from''), (TAddress, ''to''), (TUint 256, ''amount'')]\<rparr>),
      (''Approval'', \<lparr>eventName = ''Approval'',
         eventInputs = [(TAddress, ''owner''), (TAddress, ''spender''), (TUint 256, ''amount'')]\<rparr>)]"

definition ERC20_ABI :: "Fragment list" where
  "ERC20_ABI = map (Function \<circ> snd) ERC20_FUNCTIONS @ map (Event \<circ> snd) ERC20_EVENTS"

definition ERC2612_FUNCTIONS :: "(string \<times> FunctionFragment) list" where
  "ERC2612_FUNCTIONS =
     [(''permit'', \<lparr>fragmentName = ''permit'',
         inputs = [(TAddress, ''owner''), (TAddress, ''spender''), (TUint 256, ''value''),
                   (TUint 256, ''deadline''), (TUint 8, ''v''), (TBytes 32, ''r''), (TBytes 32, ''s'')]\<rparr>),
      (''nonces'', \<lparr>fragmentName = ''nonces'', inputs = [(TAddress, ''owner'')]\<rparr>),
      (''DOMAIN'', \<lparr>fragmentName = ''DOMAIN_SEPARATOR'', inputs = []\<rparr>)]"

definition ERC2612_ABI :: "Fragment list" where
  "ERC2612_ABI = ERC20_ABI @ map (Function \<circ> snd) ERC2612_FUNCTIONS"

text \<open>An \<open>Interface\<close> is built from an ABI; call data is matched against its function
  fragments.\<close>

type_synonym Interface = "Fragment list"

definition ERC20_INTERFACE :: Interface where
  "ERC20_INTERFACE = ERC20_ABI"

definition ERC2612_INTERFACE :: Interface where
  "ERC2612_INTERFACE = ERC2612_ABI"

fun functionsOf :: "Interface \<Rightarrow> FunctionFragment list" where
  "functionsOf [] = []"
| "functionsOf (Function f # fs) = f # functionsOf fs"
| "functionsOf (Event e # fs) = functionsOf fs"

subsection \<open>The library's \<open>parseTransaction\<close>\<close>

text \<open>
  Modelled from the spec: the ABI library (ethers) is an external collaborator; what the
  sources use of it is modelled here from its documented behaviour. Call data is the byte
  string that the hexadecimal input denotes. \<open>parseTransaction\<close> finds the function
  fragment of the interface whose selector is the first four bytes of the data, and throws
  when there is none; it then decodes one 32-byte word for each input (all inputs of
  these interfaces are static), and throws when the data is too short or an address word
  exceeds 20 bytes. The selector of a fragment is the first four bytes of the Keccak-256
  hash of its canonical signature; the hashes of the twelve signatures are tabulated.
\<close>

type_synonym bytes = "8 word list"

fun natToString :: "nat \<Rightarrow> string" where
  "natToString n =
     (if n < 10 then [char_of (48 + n)]
      else natToString (n div 10) @ [char_of (48 + n mod 10)])"

fun typeName :: "AbiType \<Rightarrow> string" where
  "typeName TAddress = ''address''"
| "typeName (TUint n) = ''uint'' @ natToString n"
| "typeName (TBytes n) = ''bytes'' @ natToString n"
| "typeName TString = ''string''"
| "typeName TBool = ''bool''"

fun joinComma :: "string list \<Rightarrow> string" where
  "joinComma [] = []"
| "joinComma [x] = x"
| "joinComma (x # y # ys) = x @ '','' @ joinComma (y # ys)"

definition format :: "FunctionFragment \<Rightarrow> string" where
  "format f = fragmentName f @ ''('' @ joinComma (map (typeName \<circ> fst) (inputs f)) @ '')''"

definition sighashTable :: "(string \<times> bytes) list" where
  "sighashTable =
     [(''allowance(address,address)'', [0xdd, 0x62, 0xed, 0x3e]),
      (''approve(address,uint256)'', [0x09, 0x5e, 0xa7, 0xb3]),
      (''balanceOf(address)'', [0x70, 0xa0, 0x82, 0x31]),
      (''decimals()'', [0x31, 0x3c, 0xe5, 0x67]),
      (''name()'', [0x06, 0xfd, 0xde, 0x03]),
      (''symbol()'', [0x95, 0xd8, 0x9b, 0x41]),
      (''totalSupply()'', [0x18, 0x16, 0x0d, 0xdd]),
      (''transfer(address,uint256)'', [0xa9, 0x05, 0x9c, 0xbb]),
      (''transferFrom(address,address,uint256)'', [0x23, 0xb8, 0x72, 0xdd]),
      (''permit(address,address,uint256,uint256,uint8,bytes32,bytes32)'', [0xd5, 0x05, 0xac, 0xcf]),
      (''nonces(address)'', [0x7e, 0xce, 0xbe, 0x00]),
      (''DOMAIN_SEPARATOR()'', [0x36, 0x44, 0xe5, 0x15])]"

definition getSighash :: "FunctionFragment \<Rightarrow> bytes option" where
  "getSighash f = map_of sighashTable (format f)"

text \<open>A decoded value is kept as its big-endian bytes: the 20 bytes of an address, the
  \<open>n div 8\<close> low bytes of a \<open>uintn\<close> (the library masks the word to \<open>n\<close> bits), the
  first \<open>n\<close> bytes of a \<open>bytesn\<close>.\<close>

datatype AbiValue = AddressValue bytes | UintValue bytes | BytesValue bytes

datatype abiError = NoMatchingFunction | DataOutOfBounds | ValueOutOfRange | Unsupported

definition decodeWord :: "AbiType \<Rightarrow> bytes \<Rightarrow> abiError + AbiValue" where
  "decodeWord ty w =
     (case ty of
        TAddress \<Rightarrow> (if list_all (\<lambda>b. b = 0) (take 12 w) then Inr (AddressValue (drop 12 w))
                     else Inl ValueOutOfRange)
      | TUint n \<Rightarrow> Inr (UintValue (drop (32 - n div 8) w))
      | TBytes n \<Rightarrow> Inr (BytesValue (take n w))
      | _ \<Rightarrow> Inl Unsupported)"

fun abiDecode :: "AbiType list \<Rightarrow> bytes \<Rightarrow> abiError + AbiValue list" where
  "abiDecode [] bs = Inr []"
| "abiDecode (ty # tys) bs =
     (if length bs < 32 then Inl DataOutOfBounds
      else case decodeWord ty (take 32 bs) of
             Inl e \<Rightarrow> Inl e
           | Inr v \<Rightarrow> (case abiDecode tys (drop 32 bs) of
                        Inl e \<Rightarrow> Inl e
                      | Inr vs \<Rightarrow> Inr (v # vs)))"

record TransactionDescription =
  functionFragment :: FunctionFragment
  signature :: string
  sighash :: bytes
  args :: "AbiValue list"

definition getFunction :: "Interface \<Rightarrow> bytes \<Rightarrow> abiError + FunctionFragment" where
  "getFunction iface sel =
     (case find (\<lambda>f. getSighash f = Some sel) (functionsOf iface) of
        None \<Rightarrow> Inl NoMatchingFunction
      | Some f \<Rightarrow> Inr f)"

definition parseTransaction :: "Interface \<Rightarrow> bytes \<Rightarrow> abiError + TransactionDescription" where
  "parseTransaction iface calldata =
     (case getFunction iface (take 4 calldata) of
        Inl e \<Rightarrow> Inl e
      | Inr f \<Rightarrow>
          (case abiDecode (map fst (inputs f)) (drop 4 calldata) of
             Inl e \<Rightarrow> Inl e
           | Inr vs \<Rightarrow>
               Inr \<lparr> functionFragment = f, signature = format f,
                      sighash = take 4 calldata, args = vs \<rparr>))"

subsection \<open>\<open>parseERC20Tx\<close>\<close>

text \<open>The \<open>try\<close> returns the description, the \<open>catch\<close> returns \<open>undefined\<close>.\<close>

definition parseERC20Tx :: "bytes \<Rightarrow> TransactionDescription option" where
  "parseERC20Tx input =
     (case parseTransaction ERC20_INTERFACE input of
        Inr d \<Rightarrow> Some d
      | Inl err \<Rightarrow> None)"

text \<open>The reading of the operation as the specification words it: the same, against the
  interface of ERC-20 with the ERC-2612 functions.\<close>

definition parseAsErc20Call_spec :: "bytes \<Rightarrow> TransactionDescription option" where
  "parseAsErc20Call_spec input =
     (case parseTransaction ERC2612_INTERFACE input of
        Inr d \<Rightarrow> Some d
      | Inl err \<Rightarrow> None)"

text \<open>The call \<open>permit(0x01, 0x02, 3, 4, 27, r, s)\<close>: the selector \<open>d505accf\<close> and seven
  words.\<close>

definition word32 :: "8 word \<Rightarrow> bytes" where
  "word32 b = replicate 31 0 @ [b]"

definition permitCall :: bytes where
  "permitCall =
     [0xd5, 0x05, 0xac, 0xcf] @ word32 1 @ word32 2 @ word32 3 @ word32 4 @ word32 27 @
     word32 5 @ word32 6"

subsection \<open>\<open>parseLogsForERC20Transfers\<close>\<close>

record EVMLog =
  contractAddress :: string
  data :: string
  topics :: "string list"

text \<open>What \<open>decodeEventLog\<close> returns: \<open>decoded.from\<close>, \<open>decoded.to\<close> and
  \<open>decoded.amount\<close>, each possibly \<open>undefined\<close>. The amount is a BigNumber, an integer.\<close>

record Result =
  decoded_from :: "string option"
  decoded_to :: "string option"
  decoded_amount :: "int option"

record ERC20TransferLog =
  logContractAddress :: string
  logAmount :: int
  senderAddress :: string
  recipientAddress :: string

text \<open>
  The library's \<open>decodeEventLog\<close> for the Transfer event is the parameter \<open>decodeTransfer\<close>:
  from the data and the topics of a log to the decoded fields, or an exception. The body
  of the \<open>try\<close> is \<open>tryParseLog\<close>; \<open>parseLog\<close> is the whole callback of \<open>map\<close>, whose
  \<open>catch\<close> turns every exception into \<open>undefined\<close>.
\<close>

definition tryParseLog ::
  "(string \<Rightarrow> string list \<Rightarrow> 'e + Result) \<Rightarrow> EVMLog \<Rightarrow> 'e + ERC20TransferLog option" where
  "tryParseLog decodeTransfer log =
     (case decodeTransfer (data log) (topics log) of
        Inl e \<Rightarrow> Inl e
      | Inr decoded \<Rightarrow>
          if decoded_to decoded = None \<or> decoded_from decoded = None \<or> decoded_amount decoded = None
          then Inr None
          else Inr (Some \<lparr> logContractAddress = contractAddress log,
                             logAmount = the (decoded_amount decoded),
                             senderAddress = the (decoded_from decoded),
                             recipientAddress = the (decoded_to decoded) \<rparr>))"

definition parseLog ::
  "(string \<Rightarrow> string list \<Rightarrow> 'e + Result) \<Rightarrow> EVMLog \<Rightarrow> ERC20TransferLog option" where
  "parseLog decodeTransfer log =
     (case tryParseLog decodeTransfer log of
        Inr info \<Rightarrow> info
      | Inl err \<Rightarrow> None)"

definition parseLogsForERC20Transfers ::
  "(string \<Rightarrow> string list \<Rightarrow> 'e + Result) \<Rightarrow> EVMLog list \<Rightarrow> ERC20TransferLog list" where
  "parseLogsForERC20Transfers decodeTransfer logs =
     map the (filter (\<lambda>info. info \<noteq> None) (map (parseLog decodeTransfer) logs))"

text \<open>The specification's words: a log is kept when its decoding does not throw and the
  three fields are present, and then gives this record.\<close>

definition decodesAsTransfer :: "(string \<Rightarrow> string list \<Rightarrow> 'e + Result) \<Rightarrow> EVMLog \<Rightarrow> bool" where
  "decodesAsTransfer decodeTransfer log =
     (case decodeTransfer (data log) (topics log) of
        Inl e \<Rightarrow> False
      | Inr decoded \<Rightarrow>
          decoded_from decoded \<noteq> None \<and> decoded_to decoded \<noteq> None \<and> decoded_amount decoded \<noteq> None)"

definition transferRecord :: "(string \<Rightarrow> string list \<Rightarrow> 'e + Result) \<Rightarrow> EVMLog \<Rightarrow> ERC20TransferLog" where
  "transferRecord decodeTransfer log =
     (case decodeTransfer (data log) (topics log) of
        Inr decoded \<Rightarrow>
          \<lparr> logContractAddress = contractAddress log,
            logAmount = the (decoded_amount decoded),
            senderAddress = the (decoded_from decoded),
            recipientAddress = the (decoded_to decoded) \<rparr>)"

section \<open>JavaScript values used by the accounts slice\<close>

text \<open>
  A plain JavaScript object used as a dictionary is an association list: its own
  string-keyed properties in insertion order. \<open>o[k]\<close> is \<open>map_of o k\<close>,
  \<open>o[k] = v\<close> is \<open>AList.update k v o\<close> (the value is replaced in place, a new key is
  appended), \<open>Object.keys\<close> is \<open>map fst\<close> and \<open>Object.values\<close> is \<open>map snd\<close>.
  The keys of \<open>accountsData\<close> are normalised addresses, never a name inherited from
  \<open>Object.prototype\<close>. An asset symbol is any string: the one name of
  \<open>Object.prototype\<close> that does not behave as a key, \<open>__proto__\<close> (an accessor whose
  setter replaces the prototype), is modelled where a symbol is assigned, in
  \<open>setBalance\<close> and \<open>addCombined\<close>. (The language lists keys that are array indices
  first; no statement below depends on the order of the keys.) Strings are byte strings
  (ASCII).
\<close>

type_synonym 'v object = "(string \<times> 'v) list"

definition Object_keys :: "'v object \<Rightarrow> string list" where
  "Object_keys obj = map fst obj"

definition Object_values :: "'v object \<Rightarrow> 'v list" where
  "Object_values obj = map snd obj"

text \<open>The exceptions: those of the language, and the \<open>Error\<close> that the draft library
  throws when the prototype of a draft is set.\<close>

datatype error = SyntaxError | RangeError | TypeError | ImmerError

subsection \<open>\<open>BigInt(string)\<close>, the remainder of bigints, \<open>toLowerCase\<close>\<close>

definition isWhiteSpace :: "char \<Rightarrow> bool" where
  "isWhiteSpace c = (of_char c \<in> {9, 10, 11, 12, 13, 32 :: nat})"

definition trim :: "string \<Rightarrow> string" where
  "trim s = rev (dropWhile isWhiteSpace (rev (dropWhile isWhiteSpace s)))"

definition digitValue :: "char \<Rightarrow> nat" where
  "digitValue c =
     (let n = (of_char c :: nat) in
      if 48 \<le> n \<and> n \<le> 57 then n - 48
      else if 97 \<le> n \<and> n \<le> 122 then n - 87
      else if 65 \<le> n \<and> n \<le> 90 then n - 55
      else 36)"

text \<open>A non-empty run of digits of the base, most significant first; anything else is
  not a literal.\<close>

definition parseDigits :: "nat \<Rightarrow> string \<Rightarrow> nat option" where
  "parseDigits base ds =
     (if ds \<noteq> [] \<and> list_all (\<lambda>c. digitValue c < base) ds
      then Some (foldl (\<lambda>acc c. acc * base + digitValue c) 0 ds)
      else None)"

text \<open>
  \<open>BigInt(s)\<close> for a string (the language's StringToBigInt): white space is trimmed,
  the empty string is \<open>0n\<close>, a literal is \<open>0x\<close>/\<open>0o\<close>/\<open>0b\<close> (either case) followed
  by digits of that base, or decimal digits with an optional sign; everything else throws
  a SyntaxError.
\<close>

definition BigInt :: "string \<Rightarrow> error + int" where
  "BigInt str =
     (let s = trim str;
          prefix = take 2 s;
          body = drop 2 s;
          lit = (if s = [] then Some 0
                 else if prefix = ''0x'' \<or> prefix = ''0X'' then map_option int (parseDigits 16 body)
                 else if prefix = ''0o'' \<or> prefix = ''0O'' then map_option int (parseDigits 8 body)
                 else if prefix = ''0b'' \<or> prefix = ''0B'' then map_option int (parseDigits 2 body)
                 else if take 1 s = ''-'' then map_option (\<lambda>n. - int n) (parseDigits 10 (drop 1 s))
                 else if take 1 s = ''+'' then map_option int (parseDigits 10 (drop 1 s))
                 else map_option int (parseDigits 10 s))
      in case lit of None \<Rightarrow> Inl SyntaxError | Some n \<Rightarrow> Inr n)"

text \<open>\<open>a % b\<close> on bigints truncates towards zero: the result has the sign of \<open>a\<close>.\<close>

definition bigint_rem :: "int \<Rightarrow> int \<Rightarrow> int" where
  "bigint_rem a b = sgn a * (\<bar>a\<bar> mod \<bar>b\<bar>)"

definition toLowerCase :: "string \<Rightarrow> string" where
  "toLowerCase s =
     map (\<lambda>c. let n = (of_char c :: nat) in
               if 65 \<le> n \<and> n \<le> 90 then char_of (n + 32) else c) s"

text \<open>
  \<open>xs.splice(start, 1)\<close>: a negative start counts from the end, the start is clamped to
  the array, and one element is removed when the start is inside it.
\<close>

definition splice1 :: "int \<Rightarrow> 'a list \<Rightarrow> 'a list" where
  "splice1 start xs =
     (let len = int (length xs);
          actualStart = (if start < 0 then max (len + start) 0 else min start len);
          deleteCount = min 1 (len - actualStart)
      in take (nat actualStart) xs @ drop (nat (actualStart + deleteCount)) xs)"

section \<open>The data model of the accounts slice\<close>

record 'n AddressOnNetwork =
  address :: string
  network :: 'n

record AnyAsset =
  symbol :: string

record AnyAssetAmount =
  asset :: AnyAsset
  amount :: int

record 'n AccountBalance = "'n AddressOnNetwork" +
  assetAmount :: AnyAssetAmount
  retrievedAt :: int
  dataSource :: string

record ENS =
  name :: "string option"
  avatarURL :: "string option"

record 'n AccountData = "'n AddressOnNetwork" +
  balances :: "'n AccountBalance object"
  ens :: ENS
  defaultName :: string
  defaultAvatar :: string

text \<open>The type \<open>AccountData | "loading"\<close> of an entry of \<open>accountsData\<close>.\<close>

datatype 'n AccountEntry = Loading | Record "'n AccountData"

record CombinedAccountData =
  totalMainCurrencyValue :: "string option"
  assets :: "AnyAssetAmount list"

record 'n AccountState =
  account :: "'n AddressOnNetwork option"
  accountLoading :: "string option"
  hasAccountError :: "bool option"
  accountsData :: "'n AccountEntry object"
  combinedData :: CombinedAccountData

definition initialState :: "'n AccountState" where
  "initialState =
     \<lparr> account = None, accountLoading = None, hasAccountError = None,
       accountsData = [],
       combinedData = \<lparr> totalMainCurrencyValue = Some '''', assets = [] \<rparr> \<rparr>"

text \<open>
  The module-level array \<open>availableDefaultNames\<close> is mutable state shared by every call:
  the functions below take it and return it updated. An element is \<open>None\<close> when the
  array holds \<open>undefined\<close>.
\<close>

type_synonym pool = "string option list"

definition availableDefaultNames :: pool where
  "availableDefaultNames =
     map Some [''Phoenix'', ''Matilda'', ''Sirius'', ''Topa'', ''Atos'', ''Sport'', ''Lola'', ''Foz'']"

section \<open>Identity generation\<close>

text \<open>
  \<open>newAccountData\<close>. The call throws where \<open>BigInt(address)\<close> does (before the array is
  touched), where the array is empty (\<open>n % 0\<close> is NaN and \<open>BigInt(NaN)\<close> a RangeError), and
  where the selected element is \<open>undefined\<close> (\<open>toLowerCase\<close> of it is a TypeError, after
  the array has been rearranged).
\<close>

definition defaultNameIndex :: "pool \<Rightarrow> int \<Rightarrow> nat \<Rightarrow> int" where
  "defaultNameIndex names addressInt existingAccountsCount =
     int (existingAccountsCount mod length names) +
     bigint_rem addressInt
       (int (length names) - int (existingAccountsCount mod length names))"

definition newAccountData ::
  "pool \<Rightarrow> string \<Rightarrow> 'n \<Rightarrow> nat \<Rightarrow> (error + 'n AccountData) \<times> pool" where
  "newAccountData names addr net existingAccountsCount =
     (case BigInt addr of
        Inl e \<Rightarrow> (Inl e, names)
      | Inr addressInt \<Rightarrow>
          if names = [] then (Inl RangeError, names)
          else
            let idx = defaultNameIndex names addressInt existingAccountsCount;
                defaultAccountName =
                  (if 0 \<le> idx \<and> idx < int (length names) then names ! nat idx else None);
                names' = defaultAccountName # splice1 idx names
            in case defaultAccountName of
                 None \<Rightarrow> (Inl TypeError, names')
               | Some nm \<Rightarrow>
                   (Inr \<lparr> address = addr, network = net, balances = [],
                          ens = \<lparr> name = None, avatarURL = None \<rparr>,
                          defaultName = nm,
                          defaultAvatar = ''./images/avatars/'' @ toLowerCase nm @ ''@2x.png'' \<rparr>,
                    names'))"

definition getOrCreateAccountData ::
  "pool \<Rightarrow> 'n AccountEntry option \<Rightarrow> string \<Rightarrow> 'n \<Rightarrow> nat \<Rightarrow> (error + 'n AccountData) \<times> pool" where
  "getOrCreateAccountData names entry acct net existingAccountsCount =
     (case entry of
        Some (Record d) \<Rightarrow> (Inr d, names)
      | _ \<Rightarrow> newAccountData names acct net existingAccountsCount)"

section \<open>The reducers\<close>

text \<open>
  \<open>normalizeEVMAddress\<close> lives in a module that is not part of the sources at hand, so
  every reducer takes it as the parameter \<open>norm\<close>.
\<close>

definition loadAccount :: "(string \<Rightarrow> string) \<Rightarrow> 'n AccountState \<Rightarrow> string \<Rightarrow> 'n AccountState" where
  "loadAccount norm state accountToLoad =
     (let accountKey = norm accountToLoad in
      case map_of (accountsData state) accountKey of
        Some _ \<Rightarrow> state
      | None \<Rightarrow> state\<lparr>accountsData := AList.update accountKey Loading (accountsData state)\<rparr>)"

definition deleteAccount :: "(string \<Rightarrow> string) \<Rightarrow> 'n AccountState \<Rightarrow> string \<Rightarrow> 'n AccountState" where
  "deleteAccount norm state accountToRemove =
     (let keyToRemove = norm accountToRemove in
      case map_of (accountsData state) (norm keyToRemove) of
        None \<Rightarrow> state
      | Some _ \<Rightarrow> state\<lparr>accountsData := AList.delete keyToRemove (accountsData state)\<rparr>)"

definition otherAccountsCount :: "'v object \<Rightarrow> string \<Rightarrow> nat" where
  "otherAccountsCount obj k = length (filter (\<lambda>key. key \<noteq> k) (Object_keys obj))"

text \<open>
  \<open>balances[updatedAssetSymbol] = updatedAccountBalance\<close>. For every symbol but
  \<open>__proto__\<close> the own property is set. The assignment of \<open>__proto__\<close> depends on the
  object. A record of the state the reducer started from is reached through a draft:
  the draft library finds the inherited setter, calls it on the draft, and the draft
  refuses a new prototype with an exception. An object that is not drafted (a record
  assigned earlier in the same call, or a \<open>balances\<close> object that an earlier call left
  with another prototype, which the library does not draft) follows the language: an own
  property \<open>__proto__\<close>, which only the computed key of the object literal creates, is
  overwritten; without one the setter replaces the prototype and no own property changes.
\<close>

definition setBalance ::
  "bool \<Rightarrow> 'n AccountBalance object \<Rightarrow> string \<Rightarrow> 'n AccountBalance
     \<Rightarrow> error + 'n AccountBalance object" where
  "setBalance isUndrafted bals updatedAssetSymbol updatedAccountBalance =
     (if updatedAssetSymbol = ''__proto__''
      then (if isUndrafted
            then (case map_of bals updatedAssetSymbol of
                    None \<Rightarrow> Inr bals
                  | Some own \<Rightarrow> Inr (AList.update updatedAssetSymbol updatedAccountBalance bals))
            else Inl ImmerError)
      else Inr (AList.update updatedAssetSymbol updatedAccountBalance bals))"

text \<open>
  One round of the \<open>forEach\<close> of \<open>updateAccountBalance\<close>, on the draft's \<open>accountsData\<close>.
  \<open>undrafted\<close> lists the keys whose \<open>balances\<close> object is not reached through a
  draft; a record that the round creates joins them.
\<close>

definition applyBalanceUpdate ::
  "(string \<Rightarrow> string) \<Rightarrow> pool \<Rightarrow> string list \<Rightarrow> 'n AccountEntry object \<Rightarrow> 'n AccountBalance
     \<Rightarrow> (error + 'n AccountEntry object \<times> string list) \<times> pool" where
  "applyBalanceUpdate norm names undrafted accts updatedAccountBalance =
     (let updatedAssetSymbol = symbol (asset (assetAmount updatedAccountBalance));
          updatedAccountKey = norm (address updatedAccountBalance)
      in case map_of accts updatedAccountKey of
           None \<Rightarrow> (Inr (accts, undrafted), names)
         | Some (Record existingAccountData) \<Rightarrow>
             (case setBalance (updatedAccountKey \<in> set undrafted) (balances existingAccountData)
                     updatedAssetSymbol updatedAccountBalance of
                Inl e \<Rightarrow> (Inl e, names)
              | Inr bals \<Rightarrow>
                  (Inr (AList.update updatedAccountKey
                          (Record (existingAccountData\<lparr>balances := bals\<rparr>)) accts,
                        undrafted),
                   names))
         | Some Loading \<Rightarrow>
             (case newAccountData names updatedAccountKey (network updatedAccountBalance)
                     (otherAccountsCount accts updatedAccountKey) of
                (Inl e, names') \<Rightarrow> (Inl e, names')
              | (Inr d, names') \<Rightarrow>
                  (Inr (AList.update updatedAccountKey
                          (Record (d\<lparr>balances := [(updatedAssetSymbol, updatedAccountBalance)]\<rparr>))
                          accts,
                        updatedAccountKey # undrafted),
                   names')))"

fun applyBalanceUpdates ::
  "(string \<Rightarrow> string) \<Rightarrow> pool \<Rightarrow> string list \<Rightarrow> 'n AccountEntry object
     \<Rightarrow> 'n AccountBalance list \<Rightarrow> (error + 'n AccountEntry object \<times> string list) \<times> pool" where
  "applyBalanceUpdates norm names undrafted accts [] = (Inr (accts, undrafted), names)"
| "applyBalanceUpdates norm names undrafted accts (b # bs) =
     (case applyBalanceUpdate norm names undrafted accts b of
        (Inl e, names') \<Rightarrow> (Inl e, names')
      | (Inr (accts', undrafted'), names') \<Rightarrow>
          applyBalanceUpdates norm names' undrafted' accts' bs)"

text \<open>
  The asset amounts of every account that is not loading. An \<open>assetAmount\<close> is an object,
  so \<open>.filter((b) => b)\<close> keeps every element.
\<close>

definition combinedAccountBalances :: "'n AccountEntry object \<Rightarrow> AnyAssetAmount list" where
  "combinedAccountBalances accts =
     concat (map (\<lambda>ad. case ad of
                          Loading \<Rightarrow> []
                        | Record d \<Rightarrow> map assetAmount (Object_values (balances d)))
                 (Object_values accts))"

text \<open>\<open>acc[assetSymbol]?.amount || 0n\<close>: a missing entry and the amount \<open>0n\<close> both give \<open>0n\<close>.\<close>

definition amountOrZero :: "AnyAssetAmount option \<Rightarrow> int" where
  "amountOrZero e = (case e of None \<Rightarrow> 0 | Some a \<Rightarrow> if amount a = 0 then 0 else amount a)"

text \<open>
  One step of the \<open>reduce\<close>. The accumulator starts as \<open>{}\<close>, an object that is not
  drafted and has no own property \<open>__proto__\<close>: with that symbol the assignment replaces
  the prototype of the accumulator and its own properties, which \<open>Object.values\<close> lists,
  stay as they are. What a symbol without own property reads through the prototype has
  no \<open>amount\<close> that counts: such a read gives \<open>0n\<close>, as a missing entry does.
\<close>

definition addCombined :: "AnyAssetAmount object \<Rightarrow> AnyAssetAmount \<Rightarrow> AnyAssetAmount object" where
  "addCombined acc combinedAssetAmount =
     (let assetSymbol = symbol (asset combinedAssetAmount) in
      if assetSymbol = ''__proto__'' then acc
      else AList.update assetSymbol
             (combinedAssetAmount\<lparr>amount :=
                amountOrZero (map_of acc assetSymbol) + amount combinedAssetAmount\<rparr>) acc)"

definition combineAssets :: "AnyAssetAmount list \<Rightarrow> AnyAssetAmount list" where
  "combineAssets bs = Object_values (foldl addCombined [] bs)"

text \<open>
  A reducer that throws leaves the store's state as it was; what it did to the names
  array stays. \<open>undrafted\<close> is part of the heap the reducer starts from: the keys of the
  records whose \<open>balances\<close> object the draft library does not draft; it is \<open>[]\<close> where
  every \<open>balances\<close> object has the prototype of \<open>{}\<close>.
\<close>

definition updateAccountBalance ::
  "(string \<Rightarrow> string) \<Rightarrow> pool \<Rightarrow> string list \<Rightarrow> 'n AccountState \<Rightarrow> 'n AccountBalance list
     \<Rightarrow> (error + 'n AccountState) \<times> pool" where
  "updateAccountBalance norm names undrafted immerState accountsWithBalances =
     (case applyBalanceUpdates norm names undrafted (accountsData immerState)
             accountsWithBalances of
        (Inl e, names') \<Rightarrow> (Inl e, names')
      | (Inr (accts', undrafted'), names') \<Rightarrow>
          (Inr (immerState\<lparr>accountsData := accts',
                  combinedData := (combinedData immerState)\<lparr>assets :=
                    combineAssets (combinedAccountBalances accts')\<rparr>\<rparr>),
           names'))"

definition updateAccountName ::
  "(string \<Rightarrow> string) \<Rightarrow> pool \<Rightarrow> 'n AccountState \<Rightarrow> string \<Rightarrow> 'n \<Rightarrow> string
     \<Rightarrow> (error + 'n AccountState) \<times> pool" where
  "updateAccountName norm names immerState addr net nm =
     (let accountKey = norm addr in
      case map_of (accountsData immerState) accountKey of
        None \<Rightarrow> (Inr immerState, names)
      | Some entry \<Rightarrow>
          (case getOrCreateAccountData names (Some entry) accountKey net
                  (otherAccountsCount (accountsData immerState) accountKey) of
             (Inl e, names') \<Rightarrow> (Inl e, names')
           | (Inr baseAccountData, names') \<Rightarrow>
               (Inr (immerState\<lparr>accountsData :=
                       AList.update accountKey
                         (Record (baseAccountData\<lparr>ens := (ens baseAccountData)\<lparr>name := Some nm\<rparr>\<rparr>))
                         (accountsData immerState)\<rparr>),
                names')))"

definition updateENSAvatar ::
  "(string \<Rightarrow> string) \<Rightarrow> pool \<Rightarrow> 'n AccountState \<Rightarrow> string \<Rightarrow> 'n \<Rightarrow> string
     \<Rightarrow> (error + 'n AccountState) \<times> pool" where
  "updateENSAvatar norm names immerState addr net avatar =
     (let accountKey = norm addr in
      case map_of (accountsData immerState) accountKey of
        None \<Rightarrow> (Inr immerState, names)
      | Some entry \<Rightarrow>
          (case getOrCreateAccountData names (Some entry) accountKey net
                  (otherAccountsCount (accountsData immerState) accountKey) of
             (Inl e, names') \<Rightarrow> (Inl e, names')
           | (Inr baseAccountData, names') \<Rightarrow>
               (Inr (immerState\<lparr>accountsData :=
                       AList.update accountKey
                         (Record (baseAccountData\<lparr>ens := (ens baseAccountData)\<lparr>avatarURL := Some avatar\<rparr>\<rparr>))
                         (accountsData immerState)\<rparr>),
                names')))"

section \<open>Scenarios and the specification's quantities\<close>

text \<open>An address that \<open>BigInt\<close> reads as an unsigned integer.\<close>

definition unsignedAddress :: "string \<Rightarrow> bool" where
  "unsignedAddress addr = (case BigInt addr of Inr n \<Rightarrow> 0 \<le> n | Inl e \<Rightarrow> False)"




text \<open>The amount of one symbol: in one asset amount, in the balances of one entry of
  \<open>accountsData\<close>, over all entries, and in the combined portfolio.\<close>

definition symbolAmount :: "string \<Rightarrow> AnyAssetAmount \<Rightarrow> int" where
  "symbolAmount sy a = (if symbol (asset a) = sy then amount a else 0)"

definition recordTotal :: "string \<Rightarrow> 'n AccountEntry \<Rightarrow> int" where
  "recordTotal sy entry =
     (case entry of
        Loading \<Rightarrow> 0
      | Record d \<Rightarrow> sum_list (map (\<lambda>ab. symbolAmount sy (assetAmount ab)) (Object_values (balances d))))"

definition accountsTotal :: "string \<Rightarrow> 'n AccountEntry object \<Rightarrow> int" where
  "accountsTotal sy accts = sum_list (map (recordTotal sy) (Object_values accts))"

definition combinedAmount :: "string \<Rightarrow> AnyAssetAmount list \<Rightarrow> int" where
  "combinedAmount sy amounts = sum_list (map (symbolAmount sy) amounts)"

text \<open>
  Modelled from the spec: \<open>normalizeEVMAddress\<close> is missing from the sources; the
  specification calls its result the canonical lowercase hexadecimal form of the address.
  It instantiates the parameter \<open>norm\<close> where a concrete normalisation is needed.
\<close>

definition normalizeEVMAddress :: "string \<Rightarrow> string" where
  "normalizeEVMAddress addr = toLowerCase addr"

text \<open>Whether the entry of a key is a record with the default name and avatar of \<open>d\<close>.\<close>

definition keepsIdentity :: "'n AccountState \<Rightarrow> string \<Rightarrow> 'n AccountData \<Rightarrow> bool" where
  "keepsIdentity state' k d =
     (case map_of (accountsData state') k of
        Some (Record d') \<Rightarrow> defaultName d' = defaultName d \<and> defaultAvatar d' = defaultAvatar d
      | _ \<Rightarrow> False)"

text \<open>Concrete values: a balance of the asset ETH, and the state in which the address
  \<open>0xAB\<close> is loading.\<close>

definition ethBalance :: "string \<Rightarrow> int \<Rightarrow> unit AccountBalance" where
  "ethBalance addr n =
     \<lparr> address = addr, network = (),
       assetAmount = \<lparr> asset = \<lparr> symbol = ''ETH'' \<rparr>, amount = n \<rparr>,
       retrievedAt = 0, dataSource = ''alchemy'' \<rparr>"

definition loadingState :: "unit AccountState" where
  "loadingState = loadAccount normalizeEVMAddress initialState ''0xAB''"

text \<open>The state in which the address \<open>0x\<close>, a prefix without digits that \<open>BigInt\<close>
  cannot read, is loading.\<close>

definition unreadableState :: "unit AccountState" where
  "unreadableState = loadAccount normalizeEVMAddress initialState ''0x''"

text \<open>The record that the first balance for \<open>0xAB\<close> creates from the initial names,
  the names array after it, and the state with that record.\<close>

definition topaRecord :: "unit AccountData" where
  "topaRecord =
     \<lparr> address = ''0xab'', network = (), balances = [(''ETH'', ethBalance ''0xAB'' 5)],
       ens = \<lparr> name = None, avatarURL = None \<rparr>,
       defaultName = ''Topa'', defaultAvatar = ''./images/avatars/topa@2x.png'' \<rparr>"

definition topaPool :: pool where
  "topaPool = map Some [''Topa'', ''Phoenix'', ''Matilda'', ''Sirius'', ''Atos'', ''Sport'', ''Lola'', ''Foz'']"

definition recordState :: "unit AccountState" where
  "recordState =
     \<lparr> account = None, accountLoading = None, hasAccountError = None,
       accountsData = [(''0xab'', Record topaRecord)],
       combinedData = \<lparr> totalMainCurrencyValue = Some [],
         assets = [\<lparr> asset = \<lparr> symbol = ''ETH'' \<rparr>, amount = 5 \<rparr>] \<rparr> \<rparr>"

text \<open>A balance of an asset whose symbol is \<open>__proto__\<close>, and the state that the first
  such balance for the loading address \<open>0xAB\<close> leaves.\<close>

definition protoBalance :: "string \<Rightarrow> int \<Rightarrow> unit AccountBalance" where
  "protoBalance addr n =
     \<lparr> address = addr, network = (),
       assetAmount = \<lparr> asset = \<lparr> symbol = ''__proto__'' \<rparr>, amount = n \<rparr>,
       retrievedAt = 0, dataSource = ''alchemy'' \<rparr>"

definition protoState :: "unit AccountState" where
  "protoState =
     \<lparr> account = None, accountLoading = None, hasAccountError = None,
       accountsData =
         [(''0xab'', Record (topaRecord\<lparr>balances := [(''__proto__'', protoBalance ''0xAB'' 5)]\<rparr>))],
       combinedData = \<lparr> totalMainCurrencyValue = Some [], assets = [] \<rparr> \<rparr>"

text \<open>The accumulator of the \<open>reduce\<close>: every key is the symbol of its entry, and no key
  occurs twice.\<close>

definition keyedBySymbol :: "AnyAssetAmount object \<Rightarrow> bool" where
  "keyedBySymbol acc = (distinct (map fst acc) \<and> list_all (\<lambda>(k, c). symbol (asset c) = k) acc)"

text \<open>A stand-in for the library's decoder, and four logs: it decodes the first and the
  last, throws on the second and returns no field for the third.\<close>

definition sampleDecoder :: "string \<Rightarrow> string list \<Rightarrow> error + Result" where
  "sampleDecoder d ts =
     (if d = ''0x03e8'' \<and> length ts = 3
      then Inr \<lparr> decoded_from = Some (ts ! 1), decoded_to = Some (ts ! 2), decoded_amount = Some 1000 \<rparr>
      else if d = ''0x''
      then Inr \<lparr> decoded_from = None, decoded_to = None, decoded_amount = None \<rparr>
      else Inl TypeError)"

definition sampleLogs :: "EVMLog list" where
  "sampleLogs =
     [\<lparr> contractAddress = ''0xc1'', data = ''0x03e8'', topics = [''0xddf2'', ''0xaa'', ''0xbb''] \<rparr>,
      \<lparr> contractAddress = ''0xc2'', data = ''0xzz'', topics = [] \<rparr>,
      \<lparr> contractAddress = ''0xc3'', data = ''0x'', topics = [] \<rparr>,
      \<lparr> contractAddress = ''0xc4'', data = ''0x03e8'', topics = [''0xddf2'', ''0xcc'', ''0xdd''] \<rparr>]"

section \<open>Identity generation: the selected name and the array of names\<close>

lemma bigint_rem_nonneg: "0 \<le> a \<Longrightarrow> 0 < b \<Longrightarrow> bigint_rem a b = a mod b"
  by (cases "a = 0") (simp_all add: bigint_rem_def)


lemma defaultNameIndex_unsigned:
  assumes "names \<noteq> []" "0 \<le> a"
  shows "defaultNameIndex names a n =
           int (n mod length names + nat a mod (length names - n mod length names))"
proof -
  have lt: "n mod length names < length names" using assms by simp
  then have pos: "0 < int (length names) - int (n mod length names)" by simp
  have "int (nat a mod (length names - n mod length names)) =
        a mod (int (length names) - int (n mod length names))"
    using assms lt by (simp add: zmod_int of_nat_diff)
  then show ?thesis
    using bigint_rem_nonneg [OF assms(2) pos] by (simp add: defaultNameIndex_def)
qed

lemma defaultNameIndex_unsigned_less:
  assumes "names \<noteq> []"
  shows "n mod length names + m mod (length names - n mod length names) < length names"
proof -
  have lt: "n mod length names < length names" using assms by simp
  then have "m mod (length names - n mod length names) < length names - n mod length names"
    by simp
  then show ?thesis by linarith
qed


lemma splice1_in_range:
  assumes "0 \<le> i" "i < int (length xs)"
  shows "splice1 i xs = take (nat i) xs @ drop (Suc (nat i)) xs"
proof -
  have "nat (i + 1) = Suc (nat i)" using assms(1) by simp
  moreover have "splice1 i xs = take (nat i) xs @ drop (nat (i + 1)) xs"
    using assms by (simp add: splice1_def Let_def min_def)
  ultimately show ?thesis by simp
qed



lemma newAccountData_unsigned:
  assumes "BigInt addr = Inr a" "0 \<le> a" "names \<noteq> []"
    and "idx = n mod length names + nat a mod (length names - n mod length names)"
    and "names ! idx = Some nm"
  shows "newAccountData names addr net n =
           (Inr \<lparr> address = addr, network = net, balances = [],
                  ens = \<lparr> name = None, avatarURL = None \<rparr>,
                  defaultName = nm,
                  defaultAvatar = ''./images/avatars/'' @ toLowerCase nm @ ''@2x.png'' \<rparr>,
            Some nm # take idx names @ drop (Suc idx) names)"
proof -
  have i: "defaultNameIndex names a n = int idx"
    using defaultNameIndex_unsigned [OF assms(3) assms(2)] assms(4) by simp
  have lt: "idx < length names"
    using defaultNameIndex_unsigned_less [OF assms(3)] assms(4) by simp
  have sp: "splice1 (int idx) names = take idx names @ drop (Suc idx) names"
    using splice1_in_range [of "int idx" names] lt by simp
  show ?thesis
    using assms(1,3,5) lt by (simp add: newAccountData_def i sp)
qed


lemma set_take_drop_nth:
  assumes "i < length xs"
  shows "insert (xs ! i) (set (take i xs @ drop (Suc i) xs)) = set xs"
proof -
  have "xs = take i xs @ xs ! i # drop (Suc i) xs"
    using assms by (rule id_take_nth_drop)
  then have "set xs = set (take i xs @ xs ! i # drop (Suc i) xs)" by simp
  then show ?thesis by simp
qed

lemma newAccountData_defined_pool:
  assumes u: "unsignedAddress addr" and ne: "names \<noteq> []" and df: "None \<notin> set names"
  shows "\<exists>d names'. newAccountData names addr net n = (Inr d, names') \<and>
           Some (defaultName d) \<in> set names \<and> set names' = set names \<and>
           length names' = length names"
proof -
  from u obtain a where a: "BigInt addr = Inr a" "0 \<le> a"
    by (auto simp add: unsignedAddress_def split: sum.splits)
  define idx where "idx = n mod length names + nat a mod (length names - n mod length names)"
  have lt: "idx < length names"
    unfolding idx_def using ne by (rule defaultNameIndex_unsigned_less)
  then have mem: "names ! idx \<in> set names" by simp
  with df obtain nm where nm: "names ! idx = Some nm" by (cases "names ! idx") auto
  note r = newAccountData_unsigned [OF a(1) a(2) ne idx_def nm, of net]
  have st: "set (Some nm # take idx names @ drop (Suc idx) names) = set names"
    using set_take_drop_nth [OF lt] nm by simp
  have ln: "length (Some nm # take idx names @ drop (Suc idx) names) = length names"
    using lt by simp
  show ?thesis
    using r st ln mem nm by (intro exI conjI) (assumption, simp_all)
qed



text \<open>
  C3. For an address that \<open>BigInt\<close> reads as an unsigned integer, any network and any
  count \<open>n\<close> of existing accounts, \<open>newAccountData\<close> selects the name at index
  \<open>skip + (addressInt mod (poolSize - skip))\<close> with \<open>skip = n mod poolSize\<close>; the index is
  inside the array; the name is removed from its place and put at the front; the avatar
  path is built from the lower-case form of the name.
\<close>

theorem newAccountData_selects_name:
  assumes "BigInt addr = Inr addressInt" and "0 \<le> addressInt" and "names \<noteq> []"
    and "skip = n mod length names"
    and "idx = skip + nat addressInt mod (length names - skip)"
    and "names ! idx = Some nm"
  shows "idx < length names \<and>
         newAccountData names addr net n =
           (Inr \<lparr> address = addr, network = net, balances = [],
                  ens = \<lparr> name = None, avatarURL = None \<rparr>,
                  defaultName = nm,
                  defaultAvatar = ''./images/avatars/'' @ toLowerCase nm @ ''@2x.png'' \<rparr>,
            Some nm # take idx names @ drop (Suc idx) names)"
proof -
  have i: "idx = n mod length names + nat addressInt mod (length names - n mod length names)"
    using assms(4,5) by simp
  have "idx < length names"
    unfolding i using assms(3) by (rule defaultNameIndex_unsigned_less)
  with newAccountData_unsigned [OF assms(1) assms(2) assms(3) i assms(6), of net]
  show ?thesis by simp
qed

theorem newAccountData_selects_name_witness:
  "BigInt ''0x1f'' = Inr 31 \<and> (0::int) \<le> 31 \<and> availableDefaultNames \<noteq> [] \<and>
   (3::nat) = 3 mod length availableDefaultNames \<and>
   (4::nat) = 3 + nat 31 mod (length availableDefaultNames - 3) \<and>
   availableDefaultNames ! 4 = Some ''Atos'' \<and>
   newAccountData availableDefaultNames ''0x1f'' () 3 =
     (Inr \<lparr> address = ''0x1f'', network = (), balances = [],
            ens = \<lparr> name = None, avatarURL = None \<rparr>,
            defaultName = ''Atos'',
            defaultAvatar = ''./images/avatars/atos@2x.png'' \<rparr>,
      [Some ''Atos'', Some ''Phoenix'', Some ''Matilda'', Some ''Sirius'', Some ''Topa'',
       Some ''Sport'', Some ''Lola'', Some ''Foz''])"
proof -
  have h1: "BigInt ''0x1f'' = Inr 31" by code_simp
  have h2: "(0::int) \<le> 31" by simp
  have h3: "availableDefaultNames \<noteq> []" by (simp add: availableDefaultNames_def)
  have h4: "(3::nat) = 3 mod length availableDefaultNames" by (simp add: availableDefaultNames_def)
  have h5: "(4::nat) = 3 + nat 31 mod (length availableDefaultNames - 3)"
    by (simp add: availableDefaultNames_def)
  have h6: "availableDefaultNames ! 4 = Some ''Atos''" by (simp add: availableDefaultNames_def)
  have lc: "toLowerCase ''Atos'' = ''atos''" by code_simp
  have pl: "take 4 availableDefaultNames @ drop 5 availableDefaultNames =
      [Some ''Phoenix'', Some ''Matilda'', Some ''Sirius'', Some ''Topa'',
       Some ''Sport'', Some ''Lola'', Some ''Foz'']"
    by (simp add: availableDefaultNames_def)
  from newAccountData_selects_name [OF h1 h2 h3 h4 h5 h6, of "()"] h1 h2 h3 h4 h5 h6
  show ?thesis by (simp add: lc pl)
qed




section \<open>Properties of the reducers\<close>

subsection \<open>Lookups after updates of an object\<close>

lemma map_of_update_same: "map_of (AList.update k v al) k = Some v"
  by (simp add: update_conv')

lemma map_of_update_other: "k' \<noteq> k \<Longrightarrow> map_of (AList.update k v al) k' = map_of al k'"
  by (simp add: update_conv')

lemma map_of_delete_same: "map_of (AList.delete k al) k = None"
  by (simp add: delete_conv')

lemma map_of_delete_other: "k' \<noteq> k \<Longrightarrow> map_of (AList.delete k al) k' = map_of al k'"
  by (simp add: delete_conv')

lemma update_absent_appends:
  "map_of al k = None \<Longrightarrow> AList.update k v al = al @ [(k, v)]"
  by (induction al) (auto split: if_splits)

lemma loadAccount_tracked:
  "map_of (accountsData s) (norm a) = Some e \<Longrightarrow> loadAccount norm s a = s"
  by (simp add: loadAccount_def)

lemma loadAccount_untracked:
  "map_of (accountsData s) (norm a) = None \<Longrightarrow>
     loadAccount norm s a = s\<lparr>accountsData := AList.update (norm a) Loading (accountsData s)\<rparr>"
  by (simp add: loadAccount_def)

lemma dom_map_of_update_present:
  "map_of al k = Some v \<Longrightarrow> dom (map_of (AList.update k w al)) = dom (map_of al)"
  by (auto simp add: update_conv')

lemma applyBalanceUpdate_untracked:
  "map_of accts (norm (address b)) = None \<Longrightarrow>
     applyBalanceUpdate norm names undrafted accts b = (Inr (accts, undrafted), names)"
  by (simp add: applyBalanceUpdate_def)

lemma applyBalanceUpdate_record:
  "map_of accts (norm (address b)) = Some (Record d) \<Longrightarrow>
     applyBalanceUpdate norm names undrafted accts b =
       (case setBalance (norm (address b) \<in> set undrafted) (balances d)
               (symbol (asset (assetAmount b))) b of
          Inl e \<Rightarrow> (Inl e, names)
        | Inr bals \<Rightarrow>
            (Inr (AList.update (norm (address b)) (Record (d\<lparr>balances := bals\<rparr>)) accts,
                  undrafted),
             names))"
  by (simp add: applyBalanceUpdate_def Let_def)

lemma applyBalanceUpdate_loading:
  "map_of accts (norm (address b)) = Some Loading \<Longrightarrow>
     applyBalanceUpdate norm names undrafted accts b =
       (case newAccountData names (norm (address b)) (network b)
               (otherAccountsCount accts (norm (address b))) of
          (Inl e, names') \<Rightarrow> (Inl e, names')
        | (Inr d, names') \<Rightarrow>
            (Inr (AList.update (norm (address b))
                    (Record (d\<lparr>balances := [(symbol (asset (assetAmount b)), b)]\<rparr>)) accts,
                  norm (address b) # undrafted),
             names'))"
  by (simp add: applyBalanceUpdate_def Let_def)

text \<open>What a round that returns has done: nothing, for an address without entry;
  otherwise it has put a record at the key of the address, and where a record was there
  the default name and avatar are those of that record.\<close>

lemma applyBalanceUpdate_returns:
  assumes "applyBalanceUpdate norm names undrafted accts b = (Inr (accts', undrafted'), names')"
  shows "(map_of accts (norm (address b)) = None \<and> accts' = accts) \<or>
         (\<exists>e d'. map_of accts (norm (address b)) = Some e \<and>
                 accts' = AList.update (norm (address b)) (Record d') accts \<and>
                 (case e of
                    Loading \<Rightarrow> True
                  | Record d \<Rightarrow> defaultName d' = defaultName d \<and>
                      defaultAvatar d' = defaultAvatar d))"
proof (cases "map_of accts (norm (address b))")
  case None
  with assms applyBalanceUpdate_untracked [of accts norm b names undrafted] show ?thesis by simp
next
  case (Some e)
  show ?thesis
  proof (cases e)
    case Loading
    with Some have l: "map_of accts (norm (address b)) = Some Loading" by simp
    obtain r0 p0 where n: "newAccountData names (norm (address b)) (network b)
               (otherAccountsCount accts (norm (address b))) = (r0, p0)"
      by (cases "newAccountData names (norm (address b)) (network b)
               (otherAccountsCount accts (norm (address b)))") auto
    show ?thesis
    proof (cases r0)
      case (Inl e0)
      with assms n show ?thesis
        unfolding applyBalanceUpdate_loading [of accts norm b names undrafted, OF l] by simp
    next
      case (Inr d0)
      with assms n have "accts' = AList.update (norm (address b))
          (Record (d0\<lparr>balances := [(symbol (asset (assetAmount b)), b)]\<rparr>)) accts"
        unfolding applyBalanceUpdate_loading [of accts norm b names undrafted, OF l] by simp
      with l show ?thesis by auto
    qed
  next
    case (Record d)
    with Some have r: "map_of accts (norm (address b)) = Some (Record d)" by simp
    show ?thesis
    proof (cases "setBalance (norm (address b) \<in> set undrafted) (balances d)
               (symbol (asset (assetAmount b))) b")
      case (Inl e0)
      with assms show ?thesis
        unfolding applyBalanceUpdate_record [of accts norm b d names undrafted, OF r] by simp
    next
      case (Inr bals)
      with assms have a: "accts' = AList.update (norm (address b))
          (Record (d\<lparr>balances := bals\<rparr>)) accts"
        unfolding applyBalanceUpdate_record [of accts norm b d names undrafted, OF r] by simp
      show ?thesis
        by (intro disjI2 exI [of _ "Record d"] exI [of _ "d\<lparr>balances := bals\<rparr>"])
          (simp add: a r)
    qed
  qed
qed

lemma applyBalanceUpdate_dom:
  assumes "applyBalanceUpdate norm names undrafted accts b = (Inr (accts', undrafted'), names')"
  shows "dom (map_of accts') = dom (map_of accts)"
proof -
  from applyBalanceUpdate_returns [OF assms] consider
    "accts' = accts"
    | e d' where "map_of accts (norm (address b)) = Some e"
        "accts' = AList.update (norm (address b)) (Record d') accts"
    by blast
  then show ?thesis
  proof cases
    case 1
    then show ?thesis by simp
  next
    case 2
    then show ?thesis
      using dom_map_of_update_present [of accts "norm (address b)" e "Record d'"] by simp
  qed
qed

lemma applyBalanceUpdate_other_key:
  assumes "applyBalanceUpdate norm names undrafted accts b = (Inr (accts', undrafted'), names')"
    and "norm (address b) \<noteq> k"
  shows "map_of accts' k = map_of accts k"
  using applyBalanceUpdate_returns [OF assms(1)] assms(2)
  by (auto simp add: update_conv')

lemma applyBalanceUpdate_identity:
  assumes "applyBalanceUpdate norm names undrafted accts b = (Inr (accts', undrafted'), names')"
    and "map_of accts k = Some (Record d)"
  shows "\<exists>d'. map_of accts' k = Some (Record d') \<and>
           defaultName d' = defaultName d \<and> defaultAvatar d' = defaultAvatar d"
proof (cases "norm (address b) = k")
  case True
  from applyBalanceUpdate_returns [OF assms(1)] assms(2) True
  obtain d' where "accts' = AList.update k (Record d') accts"
    "defaultName d' = defaultName d \<and> defaultAvatar d' = defaultAvatar d"
    by auto
  then show ?thesis by (auto simp add: update_conv')
next
  case False
  from applyBalanceUpdate_other_key [OF assms(1) False] assms(2) show ?thesis by simp
qed

lemma applyBalanceUpdates_dom:
  "applyBalanceUpdates norm names undrafted accts bs = (Inr (accts', undrafted'), names') \<Longrightarrow>
     dom (map_of accts') = dom (map_of accts)"
proof (induction bs arbitrary: names undrafted accts)
  case Nil
  then show ?case by simp
next
  case (Cons b bs)
  obtain r names1 where step: "applyBalanceUpdate norm names undrafted accts b = (r, names1)"
    by (cases "applyBalanceUpdate norm names undrafted accts b") auto
  show ?case
  proof (cases r)
    case (Inl e)
    with Cons.prems step show ?thesis by simp
  next
    case (Inr p)
    obtain accts1 undrafted1 where p: "p = (accts1, undrafted1)" by (cases p) auto
    with Cons.prems step Inr
    have "applyBalanceUpdates norm names1 undrafted1 accts1 bs = (Inr (accts', undrafted'), names')"
      by simp
    from Cons.IH [OF this]
      applyBalanceUpdate_dom [of norm names undrafted accts b accts1 undrafted1 names1] step Inr p
    show ?thesis by simp
  qed
qed

lemma applyBalanceUpdates_other_key:
  "applyBalanceUpdates norm names undrafted accts bs = (Inr (accts', undrafted'), names') \<Longrightarrow>
   list_all (\<lambda>b. norm (address b) \<noteq> k) bs \<Longrightarrow>
     map_of accts' k = map_of accts k"
proof (induction bs arbitrary: names undrafted accts)
  case Nil
  then show ?case by simp
next
  case (Cons b bs)
  obtain r names1 where step: "applyBalanceUpdate norm names undrafted accts b = (r, names1)"
    by (cases "applyBalanceUpdate norm names undrafted accts b") auto
  show ?case
  proof (cases r)
    case (Inl e)
    with Cons.prems step show ?thesis by simp
  next
    case (Inr p)
    obtain accts1 undrafted1 where p: "p = (accts1, undrafted1)" by (cases p) auto
    with Cons.prems step Inr
    have rest: "applyBalanceUpdates norm names1 undrafted1 accts1 bs = (Inr (accts', undrafted'), names')"
      by simp
    from Cons.prems(2) have nb: "norm (address b) \<noteq> k"
      and others: "list_all (\<lambda>b. norm (address b) \<noteq> k) bs" by simp_all
    from applyBalanceUpdate_other_key [of norm names undrafted accts b accts1 undrafted1 names1 k]
      step Inr p nb
    have "map_of accts1 k = map_of accts k" by simp
    with Cons.IH [OF rest others] show ?thesis by simp
  qed
qed

lemma applyBalanceUpdates_identity:
  "applyBalanceUpdates norm names undrafted accts bs = (Inr (accts', undrafted'), names') \<Longrightarrow>
   map_of accts k = Some (Record d) \<Longrightarrow>
     \<exists>d'. map_of accts' k = Some (Record d') \<and>
          defaultName d' = defaultName d \<and> defaultAvatar d' = defaultAvatar d"
proof (induction bs arbitrary: names undrafted accts d)
  case Nil
  then show ?case by simp
next
  case (Cons b bs)
  obtain r names1 where step: "applyBalanceUpdate norm names undrafted accts b = (r, names1)"
    by (cases "applyBalanceUpdate norm names undrafted accts b") auto
  show ?case
  proof (cases r)
    case (Inl e)
    with Cons.prems step show ?thesis by simp
  next
    case (Inr p)
    obtain accts1 undrafted1 where p: "p = (accts1, undrafted1)" by (cases p) auto
    with Cons.prems step Inr
    have rest: "applyBalanceUpdates norm names1 undrafted1 accts1 bs = (Inr (accts', undrafted'), names')"
      by simp
    from applyBalanceUpdate_identity [of norm names undrafted accts b accts1 undrafted1 names1 k d]
      step Inr p Cons.prems(2)
    obtain d1 where d1: "map_of accts1 k = Some (Record d1)"
      "defaultName d1 = defaultName d" "defaultAvatar d1 = defaultAvatar d" by auto
    from Cons.IH [OF rest d1(1)] d1(2,3) show ?thesis by auto
  qed
qed

lemma applyBalanceUpdates_tracked_only:
  "applyBalanceUpdates norm names undrafted accts bs =
     applyBalanceUpdates norm names undrafted accts
       (filter (\<lambda>b. norm (address b) \<in> dom (map_of accts)) bs)"
proof (induction bs arbitrary: names undrafted accts)
  case Nil
  then show ?case by simp
next
  case (Cons b bs)
  show ?case
  proof (cases "map_of accts (norm (address b))")
    case None
    then have "norm (address b) \<notin> dom (map_of accts)" by auto
    with None Cons.IH [of names undrafted accts]
      applyBalanceUpdate_untracked [of accts norm b names undrafted]
    show ?thesis by simp
  next
    case (Some e)
    then have inD: "norm (address b) \<in> dom (map_of accts)" by auto
    obtain r names1 where step: "applyBalanceUpdate norm names undrafted accts b = (r, names1)"
      by (cases "applyBalanceUpdate norm names undrafted accts b") auto
    show ?thesis
    proof (cases r)
      case (Inl err)
      with step inD show ?thesis by simp
    next
      case (Inr p)
      obtain accts1 undrafted1 where p: "p = (accts1, undrafted1)" by (cases p) auto
      from applyBalanceUpdate_dom [of norm names undrafted accts b accts1 undrafted1 names1]
        step Inr p
      have "dom (map_of accts1) = dom (map_of accts)" by simp
      with Cons.IH [of names1 undrafted1 accts1] step Inr p inD show ?thesis by simp
    qed
  qed
qed

lemma same_dom_None: "dom m' = dom m \<Longrightarrow> m k = None \<Longrightarrow> m' k = None"
  by (metis domIff)

text \<open>The reducer returns a state exactly when the rounds return, and then the state
  holds what they left.\<close>

lemma updateAccountBalance_returns:
  assumes "updateAccountBalance norm names undrafted s bs = (Inr s', names')"
  shows "\<exists>undrafted'. applyBalanceUpdates norm names undrafted (accountsData s) bs =
           (Inr (accountsData s', undrafted'), names') \<and>
         assets (combinedData s') = combineAssets (combinedAccountBalances (accountsData s'))"
proof -
  obtain r q where a: "applyBalanceUpdates norm names undrafted (accountsData s) bs = (r, q)"
    by (cases "applyBalanceUpdates norm names undrafted (accountsData s) bs") auto
  show ?thesis
  proof (cases r)
    case (Inl e)
    with assms a show ?thesis by (simp add: updateAccountBalance_def)
  next
    case (Inr p)
    obtain accts1 undrafted1 where p: "p = (accts1, undrafted1)" by (cases p) auto
    with assms a Inr show ?thesis by (auto simp add: updateAccountBalance_def)
  qed
qed

lemma updateAccountBalance_dom:
  assumes "updateAccountBalance norm names undrafted s bs = (Inr s', names')"
  shows "dom (map_of (accountsData s')) = dom (map_of (accountsData s))"
  using updateAccountBalance_returns [OF assms] applyBalanceUpdates_dom by blast

lemma updateAccountBalance_tracked_only:
  "updateAccountBalance norm names undrafted s bs =
     updateAccountBalance norm names undrafted s
       (filter (\<lambda>b. map_of (accountsData s) (norm (address b)) \<noteq> None) bs)"
proof -
  have "filter (\<lambda>b. map_of (accountsData s) (norm (address b)) \<noteq> None) bs =
        filter (\<lambda>b. norm (address b) \<in> dom (map_of (accountsData s))) bs"
    by (simp add: domIff)
  then show ?thesis
    using applyBalanceUpdates_tracked_only [of norm names undrafted "accountsData s" bs]
    unfolding updateAccountBalance_def by simp
qed

lemma deleteAccount_tracked:
  "map_of (accountsData s) (norm (norm a)) = Some e \<Longrightarrow>
     deleteAccount norm s a = s\<lparr>accountsData := AList.delete (norm a) (accountsData s)\<rparr>"
  by (simp add: deleteAccount_def)

lemma result_cases:
  "\<not> isl (fst r) \<Longrightarrow> \<exists>s' p'. r = (Inr s', p') \<and> projr (fst r) = s'"
  by (cases r; cases "fst r") auto

subsection \<open>loadAccount\<close>

text \<open>
  C7. \<open>loadAccount\<close> applied twice for an address gives the state that one application
  gives. Where the normalised address has an entry (a record or the loading mark) the
  state is returned as it is; otherwise the loading mark is added for the normalised
  address, after the entries there are, which keep their values.
\<close>

theorem loadAccount_idempotent:
  "loadAccount norm (loadAccount norm s a) a = loadAccount norm s a \<and>
   (map_of (accountsData s) (norm a) \<noteq> None \<longrightarrow> loadAccount norm s a = s) \<and>
   (map_of (accountsData s) (norm a) = None \<longrightarrow>
      loadAccount norm s a = s\<lparr>accountsData := accountsData s @ [(norm a, Loading)]\<rparr> \<and>
      map_of (accountsData (loadAccount norm s a)) (norm a) = Some Loading \<and>
      (\<forall>k. k \<noteq> norm a \<longrightarrow>
         map_of (accountsData (loadAccount norm s a)) k = map_of (accountsData s) k))"
proof (cases "map_of (accountsData s) (norm a)")
  case None
  note l = loadAccount_untracked [of s norm a, OF None]
  have after: "map_of (accountsData (loadAccount norm s a)) (norm a) = Some Loading"
    by (simp add: l map_of_update_same)
  have twice: "loadAccount norm (loadAccount norm s a) a = loadAccount norm s a"
    using loadAccount_tracked [of "loadAccount norm s a" norm a Loading] after by simp
  have others: "\<forall>k. k \<noteq> norm a \<longrightarrow>
         map_of (accountsData (loadAccount norm s a)) k = map_of (accountsData s) k"
    by (simp add: l map_of_update_other)
  have app: "loadAccount norm s a = s\<lparr>accountsData := accountsData s @ [(norm a, Loading)]\<rparr>"
    using update_absent_appends [of "accountsData s" "norm a" Loading] None by (simp add: l)
  from None after twice others app show ?thesis by simp
next
  case (Some e)
  then show ?thesis using loadAccount_tracked [of s norm a e] by simp
qed


theorem loadAccount_idempotent_witness:
  "loadAccount normalizeEVMAddress (loadAccount normalizeEVMAddress (initialState :: unit AccountState) ''0xAB'') ''0xAB'' =
     loadAccount normalizeEVMAddress initialState ''0xAB'' \<and>
   map_of (accountsData (initialState :: unit AccountState)) (normalizeEVMAddress ''0xAB'') = None \<and>
   map_of (accountsData (loadAccount normalizeEVMAddress (initialState :: unit AccountState) ''0xAB''))
     (normalizeEVMAddress ''0xAB'') = Some Loading \<and>
   map_of (accountsData loadingState) (normalizeEVMAddress ''0xab'') \<noteq> None \<and>
   loadAccount normalizeEVMAddress loadingState ''0xab'' = loadingState"
proof -
  have h1: "map_of (accountsData (initialState :: unit AccountState)) (normalizeEVMAddress ''0xAB'') = None"
    by code_simp
  have h2: "map_of (accountsData loadingState) (normalizeEVMAddress ''0xab'') \<noteq> None"
    by code_simp
  from loadAccount_idempotent [of normalizeEVMAddress "initialState :: unit AccountState" "''0xAB''"]
    loadAccount_idempotent [of normalizeEVMAddress loadingState "''0xab''"] h1 h2
  show ?thesis by blast
qed

subsection \<open>deleteAccount followed by updateAccountBalance\<close>

lemma updateAccountBalance_without_untracked:
  assumes "map_of (accountsData s) k = None"
  shows "updateAccountBalance norm names undrafted s bs =
           updateAccountBalance norm names undrafted s (filter (\<lambda>b. norm (address b) \<noteq> k) bs)"
proof -
  have "filter (\<lambda>b. map_of (accountsData s) (norm (address b)) \<noteq> None)
          (filter (\<lambda>b. norm (address b) \<noteq> k) bs) =
        filter (\<lambda>b. map_of (accountsData s) (norm (address b)) \<noteq> None) bs"
    using assms by (induction bs) auto
  with updateAccountBalance_tracked_only [of norm names undrafted s bs]
    updateAccountBalance_tracked_only [of norm names undrafted s
      "filter (\<lambda>b. norm (address b) \<noteq> k) bs"]
  show ?thesis by simp
qed

lemma updateAccountBalance_creates_from_loading:
  assumes "updateAccountBalance norm names undrafted s bs = (Inr s', names')"
    and "map_of (accountsData s') k = Some (Record d')"
  shows "(\<exists>d. map_of (accountsData s) k = Some (Record d)) \<or>
         (map_of (accountsData s) k = Some Loading \<and> (\<exists>b \<in> set bs. norm (address b) = k))"
proof (cases "map_of (accountsData s) k")
  case None
  from updateAccountBalance_dom [OF assms(1)] None
  have "map_of (accountsData s') k = None" by (rule same_dom_None)
  with assms(2) show ?thesis by simp
next
  case (Some e)
  show ?thesis
  proof (cases e)
    case (Record d)
    with Some show ?thesis by simp
  next
    case Loading
    have "\<exists>b \<in> set bs. norm (address b) = k"
    proof (rule ccontr)
      assume "\<not> (\<exists>b \<in> set bs. norm (address b) = k)"
      then have all: "list_all (\<lambda>b. norm (address b) \<noteq> k) bs" by (simp add: list_all_iff)
      from updateAccountBalance_returns [OF assms(1)] obtain undrafted' where
        "applyBalanceUpdates norm names undrafted (accountsData s) bs =
           (Inr (accountsData s', undrafted'), names')" by blast
      from applyBalanceUpdates_other_key [OF this all] Some Loading assms(2)
      show False by simp
    qed
    with Some Loading show ?thesis by simp
  qed
qed

text \<open>
  C1, as the code has it. For an address whose entry is the loading mark (and a
  normalisation that maps a normalised address to itself), \<open>deleteAccount\<close> removes the
  entry and leaves the others. A following \<open>updateAccountBalance\<close> does not bring the
  address back: whatever the batch, its result (state, combined portfolio, names array or
  exception) is that of the batch without the balances of the address, so no identity is
  generated for it, and the address has no entry afterwards. The guard
  \<open>if (existingAccountData)\<close> skips an address without entry. In any state, a key that
  holds a record after \<open>updateAccountBalance\<close> held a record before, or held the loading
  mark and has a balance in the batch: only a loading address gets a new record.
\<close>

theorem deleteAccount_then_update_untracked:
  assumes "norm (norm a) = norm a" and "map_of (accountsData s) (norm a) = Some Loading"
  shows "map_of (accountsData (deleteAccount norm s a)) (norm a) = None \<and>
         (\<forall>k. k \<noteq> norm a \<longrightarrow>
            map_of (accountsData (deleteAccount norm s a)) k = map_of (accountsData s) k) \<and>
         updateAccountBalance norm names undrafted (deleteAccount norm s a) bs =
           updateAccountBalance norm names undrafted (deleteAccount norm s a)
             (filter (\<lambda>b. norm (address b) \<noteq> norm a) bs) \<and>
         (\<forall>s' names'.
            updateAccountBalance norm names undrafted (deleteAccount norm s a) bs = (Inr s', names')
            \<longrightarrow> map_of (accountsData s') (norm a) = None) \<and>
         (\<forall>s1 names1 d1.
            updateAccountBalance norm names0 undrafted0 s0 bs0 = (Inr s1, names1) \<and>
            map_of (accountsData s1) k = Some (Record d1) \<longrightarrow>
              (\<exists>d0. map_of (accountsData s0) k = Some (Record d0)) \<or>
              (map_of (accountsData s0) k = Some Loading \<and>
               (\<exists>b \<in> set bs0. norm (address b) = k)))"
proof -
  have t: "map_of (accountsData s) (norm (norm a)) = Some Loading" using assms by simp
  note del = deleteAccount_tracked [of s norm a Loading, OF t]
  have gone: "map_of (accountsData (deleteAccount norm s a)) (norm a) = None"
    by (simp add: del map_of_delete_same)
  have others: "\<forall>k. k \<noteq> norm a \<longrightarrow>
            map_of (accountsData (deleteAccount norm s a)) k = map_of (accountsData s) k"
    by (simp add: del map_of_delete_other)
  note without = updateAccountBalance_without_untracked
    [of "deleteAccount norm s a" "norm a" norm names undrafted bs, OF gone]
  have upd: "\<forall>s' names'.
            updateAccountBalance norm names undrafted (deleteAccount norm s a) bs = (Inr s', names')
            \<longrightarrow> map_of (accountsData s') (norm a) = None"
  proof (intro allI impI)
    fix s' names'
    assume "updateAccountBalance norm names undrafted (deleteAccount norm s a) bs = (Inr s', names')"
    from updateAccountBalance_dom [OF this] gone show "map_of (accountsData s') (norm a) = None"
      by (rule same_dom_None)
  qed
  have created: "\<forall>s1 names1 d1.
            updateAccountBalance norm names0 undrafted0 s0 bs0 = (Inr s1, names1) \<and>
            map_of (accountsData s1) k = Some (Record d1) \<longrightarrow>
              (\<exists>d0. map_of (accountsData s0) k = Some (Record d0)) \<or>
              (map_of (accountsData s0) k = Some Loading \<and>
               (\<exists>b \<in> set bs0. norm (address b) = k))"
    using updateAccountBalance_creates_from_loading [of norm names0 undrafted0 s0 bs0 _ _ k]
    by blast
  from gone others without upd created show ?thesis by (intro conjI)
qed

theorem deleteAccount_then_update_untracked_witness:
  "normalizeEVMAddress (normalizeEVMAddress ''0xAB'') = normalizeEVMAddress ''0xAB'' \<and>
   map_of (accountsData loadingState) (normalizeEVMAddress ''0xAB'') = Some Loading \<and>
   map_of (accountsData (deleteAccount normalizeEVMAddress loadingState ''0xAB''))
     (normalizeEVMAddress ''0xAB'') = None \<and>
   filter (\<lambda>b. normalizeEVMAddress (address b) \<noteq> normalizeEVMAddress ''0xAB'')
     [ethBalance ''0xAB'' 5, ethBalance ''0xCD'' 7, ethBalance ''0xAB'' 6] = [ethBalance ''0xCD'' 7] \<and>
   updateAccountBalance normalizeEVMAddress availableDefaultNames []
     (deleteAccount normalizeEVMAddress loadingState ''0xAB'')
     [ethBalance ''0xAB'' 5, ethBalance ''0xCD'' 7, ethBalance ''0xAB'' 6] =
   updateAccountBalance normalizeEVMAddress availableDefaultNames []
     (deleteAccount normalizeEVMAddress loadingState ''0xAB'') [ethBalance ''0xCD'' 7] \<and>
   updateAccountBalance normalizeEVMAddress availableDefaultNames []
     (deleteAccount normalizeEVMAddress loadingState ''0xAB'')
     [ethBalance ''0xAB'' 5, ethBalance ''0xCD'' 7, ethBalance ''0xAB'' 6] =
     (Inr initialState, availableDefaultNames) \<and>
   map_of (accountsData (initialState :: unit AccountState)) (normalizeEVMAddress ''0xAB'') = None \<and>
   updateAccountBalance normalizeEVMAddress availableDefaultNames [] loadingState
     [ethBalance ''0xAB'' 5] = (Inr recordState, topaPool) \<and>
   map_of (accountsData recordState) ''0xab'' = Some (Record topaRecord) \<and>
   map_of (accountsData loadingState) ''0xab'' = Some Loading \<and>
   (\<exists>b \<in> set [ethBalance ''0xAB'' 5]. normalizeEVMAddress (address b) = ''0xab'')"
proof -
  let ?N = normalizeEVMAddress
  let ?D = "deleteAccount ?N loadingState ''0xAB''"
  let ?bs = "[ethBalance ''0xAB'' 5, ethBalance ''0xCD'' 7, ethBalance ''0xAB'' 6]"
  have h1: "?N (?N ''0xAB'') = ?N ''0xAB''" by code_simp
  have h2: "map_of (accountsData loadingState) (?N ''0xAB'') = Some Loading" by code_simp
  have f: "filter (\<lambda>b. ?N (address b) \<noteq> ?N ''0xAB'') ?bs = [ethBalance ''0xCD'' 7]"
    by code_simp
  have e1: "updateAccountBalance ?N availableDefaultNames [] ?D ?bs =
      (Inr initialState, availableDefaultNames)" by code_simp
  have e2: "updateAccountBalance ?N availableDefaultNames [] loadingState [ethBalance ''0xAB'' 5] =
      (Inr recordState, topaPool)" by code_simp
  have e3: "map_of (accountsData recordState) ''0xab'' = Some (Record topaRecord)" by code_simp
  have e4: "map_of (accountsData loadingState) ''0xab'' = Some Loading" by code_simp
  note t = deleteAccount_then_update_untracked [of ?N "''0xAB''" loadingState
      availableDefaultNames "[]" ?bs availableDefaultNames "[]" loadingState
      "[ethBalance ''0xAB'' 5]" "''0xab''", OF h1 h2]
  from t have c1: "map_of (accountsData ?D) (?N ''0xAB'') = None" by (rule conjunct1)
  from t have "updateAccountBalance ?N availableDefaultNames [] ?D ?bs =
      updateAccountBalance ?N availableDefaultNames [] ?D
        (filter (\<lambda>b. ?N (address b) \<noteq> ?N ''0xAB'') ?bs)" by blast
  then have c2: "updateAccountBalance ?N availableDefaultNames [] ?D ?bs =
      updateAccountBalance ?N availableDefaultNames [] ?D [ethBalance ''0xCD'' 7]"
    by (simp only: f)
  from t e1 have c3: "map_of (accountsData (initialState :: unit AccountState)) (?N ''0xAB'') = None"
    by blast
  from t e2 e3 have "(\<exists>d0. map_of (accountsData loadingState) ''0xab'' = Some (Record d0)) \<or>
      (map_of (accountsData loadingState) ''0xab'' = Some Loading \<and>
       (\<exists>b \<in> set [ethBalance ''0xAB'' 5]. ?N (address b) = ''0xab''))" by blast
  with e4 have c4: "\<exists>b \<in> set [ethBalance ''0xAB'' 5]. ?N (address b) = ''0xab''" by simp
  from h1 h2 c1 f c2 e1 c3 e2 e3 e4 c4 show ?thesis by (intro conjI)
qed

text \<open>
  C1 as stated fails: the address \<open>0xAB\<close> is loading, is deleted, and then receives a
  balance; the result is the initial state, without an entry for the address, and the
  names array is untouched.
\<close>

theorem deleteAccount_then_update_counterexample:
  "map_of (accountsData loadingState) (normalizeEVMAddress ''0xAB'') = Some Loading \<and>
   updateAccountBalance normalizeEVMAddress availableDefaultNames []
     (deleteAccount normalizeEVMAddress loadingState ''0xAB'') [ethBalance ''0xAB'' 5] =
     (Inr initialState, availableDefaultNames) \<and>
   map_of (accountsData (initialState :: unit AccountState)) (normalizeEVMAddress ''0xAB'') = None"
  by code_simp

subsection \<open>Balances for untracked addresses\<close>

text \<open>
  C10. Balance updates whose normalised address has no entry in \<open>accountsData\<close> are
  dropped: the reducer gives the same result (state, combined portfolio, names array or
  exception) as on the batch without them, and an address without entry before the call
  has none after it.
\<close>

theorem untracked_updates_discarded:
  "updateAccountBalance norm names undrafted s bs =
     updateAccountBalance norm names undrafted s
       (filter (\<lambda>b. map_of (accountsData s) (norm (address b)) \<noteq> None) bs) \<and>
   (\<forall>s' names'. updateAccountBalance norm names undrafted s bs = (Inr s', names') \<longrightarrow>
      (\<forall>k. map_of (accountsData s) k = None \<longrightarrow> map_of (accountsData s') k = None))"
proof (intro conjI allI impI)
  show "updateAccountBalance norm names undrafted s bs =
     updateAccountBalance norm names undrafted s
       (filter (\<lambda>b. map_of (accountsData s) (norm (address b)) \<noteq> None) bs)"
    by (rule updateAccountBalance_tracked_only)
next
  fix s' names' k
  assume "updateAccountBalance norm names undrafted s bs = (Inr s', names')"
    and "map_of (accountsData s) k = None"
  with updateAccountBalance_dom [of norm names undrafted s bs s' names']
  show "map_of (accountsData s') k = None" by (simp add: same_dom_None)
qed


theorem untracked_updates_discarded_witness:
  "filter (\<lambda>b. map_of (accountsData loadingState) (normalizeEVMAddress (address b)) \<noteq> None)
     [ethBalance ''0xCD'' 7, ethBalance ''0xAB'' 5] = [ethBalance ''0xAB'' 5] \<and>
   updateAccountBalance normalizeEVMAddress availableDefaultNames [] loadingState
     [ethBalance ''0xCD'' 7, ethBalance ''0xAB'' 5] =
   updateAccountBalance normalizeEVMAddress availableDefaultNames [] loadingState [ethBalance ''0xAB'' 5] \<and>
   \<not> isl (fst (updateAccountBalance normalizeEVMAddress availableDefaultNames [] loadingState
     [ethBalance ''0xCD'' 7, ethBalance ''0xAB'' 5])) \<and>
   map_of (accountsData loadingState) ''0xcd'' = None \<and>
   map_of (accountsData (projr (fst (updateAccountBalance normalizeEVMAddress availableDefaultNames []
     loadingState [ethBalance ''0xCD'' 7, ethBalance ''0xAB'' 5])))) ''0xcd'' = None"
proof -
  let ?bs = "[ethBalance ''0xCD'' 7, ethBalance ''0xAB'' 5]"
  let ?r = "updateAccountBalance normalizeEVMAddress availableDefaultNames [] loadingState ?bs"
  have h1: "filter (\<lambda>b. map_of (accountsData loadingState) (normalizeEVMAddress (address b)) \<noteq> None)
     ?bs = [ethBalance ''0xAB'' 5]"
    by code_simp
  have h2: "\<not> isl (fst ?r)" by code_simp
  have h3: "map_of (accountsData loadingState) ''0xcd'' = None" by code_simp
  from result_cases [OF h2] obtain s' p' where r: "?r = (Inr s', p')" "projr (fst ?r) = s'"
    by blast
  note t = untracked_updates_discarded [of normalizeEVMAddress availableDefaultNames "[]" loadingState ?bs]
  from t r(1) h3 have c5: "map_of (accountsData s') ''0xcd'' = None" by blast
  from t have "?r = updateAccountBalance normalizeEVMAddress availableDefaultNames [] loadingState
      (filter (\<lambda>b. map_of (accountsData loadingState) (normalizeEVMAddress (address b)) \<noteq> None) ?bs)"
    by (rule conjunct1)
  then have c2: "?r = updateAccountBalance normalizeEVMAddress availableDefaultNames [] loadingState
      [ethBalance ''0xAB'' 5]"
    by (simp only: h1)
  from c5 r(2) have c5': "map_of (accountsData (projr (fst ?r))) ''0xcd'' = None" by (simp only:)
  from h1 c2 h2 h3 c5' show ?thesis by (intro conjI)
qed


subsection \<open>updateAccountName and updateENSAvatar\<close>

lemma getOrCreateAccountData_record:
  "getOrCreateAccountData names (Some (Record d)) k net n = (Inr d, names)"
  by (simp add: getOrCreateAccountData_def)

lemma getOrCreateAccountData_loading:
  "getOrCreateAccountData names (Some Loading) k net n = newAccountData names k net n"
  by (simp add: getOrCreateAccountData_def)

lemma updateAccountName_untracked:
  "map_of (accountsData s) (norm a) = None \<Longrightarrow>
     updateAccountName norm names s a net nm = (Inr s, names)"
  by (simp add: updateAccountName_def)

lemma updateENSAvatar_untracked:
  "map_of (accountsData s) (norm a) = None \<Longrightarrow>
     updateENSAvatar norm names s a net av = (Inr s, names)"
  by (simp add: updateENSAvatar_def)

lemma updateAccountName_record:
  "map_of (accountsData s) (norm a) = Some (Record d) \<Longrightarrow>
     updateAccountName norm names s a net nm =
       (Inr (s\<lparr>accountsData :=
               AList.update (norm a) (Record (d\<lparr>ens := (ens d)\<lparr>name := Some nm\<rparr>\<rparr>))
                 (accountsData s)\<rparr>),
        names)"
  by (simp add: updateAccountName_def getOrCreateAccountData_record)

lemma updateENSAvatar_record:
  "map_of (accountsData s) (norm a) = Some (Record d) \<Longrightarrow>
     updateENSAvatar norm names s a net av =
       (Inr (s\<lparr>accountsData :=
               AList.update (norm a) (Record (d\<lparr>ens := (ens d)\<lparr>avatarURL := Some av\<rparr>\<rparr>))
                 (accountsData s)\<rparr>),
        names)"
  by (simp add: updateENSAvatar_def getOrCreateAccountData_record)

lemma updateAccountName_loading:
  "map_of (accountsData s) (norm a) = Some Loading \<Longrightarrow>
     updateAccountName norm names s a net nm =
       (case newAccountData names (norm a) net (otherAccountsCount (accountsData s) (norm a)) of
          (Inl e, names') \<Rightarrow> (Inl e, names')
        | (Inr d, names') \<Rightarrow>
            (Inr (s\<lparr>accountsData :=
                    AList.update (norm a) (Record (d\<lparr>ens := (ens d)\<lparr>name := Some nm\<rparr>\<rparr>))
                      (accountsData s)\<rparr>),
             names'))"
  by (simp add: updateAccountName_def getOrCreateAccountData_loading Let_def)

lemma updateENSAvatar_loading:
  "map_of (accountsData s) (norm a) = Some Loading \<Longrightarrow>
     updateENSAvatar norm names s a net av =
       (case newAccountData names (norm a) net (otherAccountsCount (accountsData s) (norm a)) of
          (Inl e, names') \<Rightarrow> (Inl e, names')
        | (Inr d, names') \<Rightarrow>
            (Inr (s\<lparr>accountsData :=
                    AList.update (norm a) (Record (d\<lparr>ens := (ens d)\<lparr>avatarURL := Some av\<rparr>\<rparr>))
                      (accountsData s)\<rparr>),
             names'))"
  by (simp add: updateENSAvatar_def getOrCreateAccountData_loading Let_def)

text \<open>
  C8, as the code has it. \<open>updateAccountName\<close> and \<open>updateENSAvatar\<close> return the state as
  it is when the normalised address has no entry, and attach the name or the avatar to
  the record when there is one. For a loading address they call \<open>newAccountData\<close> for the
  key, the network and the number of other keys, as a balance for that address and
  network does: where the call returns a record they store it with the name or avatar
  attached, and it does return one where \<open>BigInt\<close> reads the key as an unsigned integer
  and the names array holds names; where the call throws, as \<open>BigInt\<close> does on a key it
  cannot read, the reducer throws the same exception and no record is stored.
\<close>

theorem ens_updates_by_entry:
  "(map_of (accountsData s) (norm a) = None \<longrightarrow>
      updateAccountName norm names s a net nm = (Inr s, names) \<and>
      updateENSAvatar norm names s a net av = (Inr s, names)) \<and>
   (map_of (accountsData s) (norm a) = Some (Record d) \<longrightarrow>
      updateAccountName norm names s a net nm =
        (Inr (s\<lparr>accountsData :=
                AList.update (norm a) (Record (d\<lparr>ens := (ens d)\<lparr>name := Some nm\<rparr>\<rparr>))
                  (accountsData s)\<rparr>), names) \<and>
      updateENSAvatar norm names s a net av =
        (Inr (s\<lparr>accountsData :=
                AList.update (norm a) (Record (d\<lparr>ens := (ens d)\<lparr>avatarURL := Some av\<rparr>\<rparr>))
                  (accountsData s)\<rparr>), names)) \<and>
   (map_of (accountsData s) (norm a) = Some Loading \<and>
    newAccountData names (norm a) net (otherAccountsCount (accountsData s) (norm a)) = (Inr d', names')
    \<longrightarrow>
      updateAccountName norm names s a net nm =
        (Inr (s\<lparr>accountsData :=
                AList.update (norm a) (Record (d'\<lparr>ens := (ens d')\<lparr>name := Some nm\<rparr>\<rparr>))
                  (accountsData s)\<rparr>), names') \<and>
      updateENSAvatar norm names s a net av =
        (Inr (s\<lparr>accountsData :=
                AList.update (norm a) (Record (d'\<lparr>ens := (ens d')\<lparr>avatarURL := Some av\<rparr>\<rparr>))
                  (accountsData s)\<rparr>), names') \<and>
      (norm (address b) = norm a \<and> network b = net \<longrightarrow>
         applyBalanceUpdate norm names undrafted (accountsData s) b =
           (Inr (AList.update (norm a)
                   (Record (d'\<lparr>balances := [(symbol (asset (assetAmount b)), b)]\<rparr>))
                   (accountsData s),
                 norm a # undrafted), names'))) \<and>
   (map_of (accountsData s) (norm a) = Some Loading \<and> unsignedAddress (norm a) \<and>
    names \<noteq> [] \<and> None \<notin> set names
    \<longrightarrow>
      (\<exists>d1 names1.
         newAccountData names (norm a) net (otherAccountsCount (accountsData s) (norm a)) =
           (Inr d1, names1) \<and>
         Some (defaultName d1) \<in> set names \<and>
         updateAccountName norm names s a net nm =
           (Inr (s\<lparr>accountsData :=
                   AList.update (norm a) (Record (d1\<lparr>ens := (ens d1)\<lparr>name := Some nm\<rparr>\<rparr>))
                     (accountsData s)\<rparr>), names1) \<and>
         updateENSAvatar norm names s a net av =
           (Inr (s\<lparr>accountsData :=
                   AList.update (norm a) (Record (d1\<lparr>ens := (ens d1)\<lparr>avatarURL := Some av\<rparr>\<rparr>))
                     (accountsData s)\<rparr>), names1))) \<and>
   (map_of (accountsData s) (norm a) = Some Loading \<and>
    newAccountData names (norm a) net (otherAccountsCount (accountsData s) (norm a)) = (Inl e, namesThrown)
    \<longrightarrow>
      updateAccountName norm names s a net nm = (Inl e, namesThrown) \<and>
      updateENSAvatar norm names s a net av = (Inl e, namesThrown) \<and>
      (norm (address b) = norm a \<and> network b = net \<longrightarrow>
         applyBalanceUpdate norm names undrafted (accountsData s) b = (Inl e, namesThrown)))"
proof -
  have untracked: "map_of (accountsData s) (norm a) = None \<longrightarrow>
      updateAccountName norm names s a net nm = (Inr s, names) \<and>
      updateENSAvatar norm names s a net av = (Inr s, names)"
    using updateAccountName_untracked [of s norm a names net nm]
      updateENSAvatar_untracked [of s norm a names net av] by simp
  have existing: "map_of (accountsData s) (norm a) = Some (Record d) \<longrightarrow>
      updateAccountName norm names s a net nm =
        (Inr (s\<lparr>accountsData :=
                AList.update (norm a) (Record (d\<lparr>ens := (ens d)\<lparr>name := Some nm\<rparr>\<rparr>))
                  (accountsData s)\<rparr>), names) \<and>
      updateENSAvatar norm names s a net av =
        (Inr (s\<lparr>accountsData :=
                AList.update (norm a) (Record (d\<lparr>ens := (ens d)\<lparr>avatarURL := Some av\<rparr>\<rparr>))
                  (accountsData s)\<rparr>), names)"
    using updateAccountName_record [of s norm a d names net nm]
      updateENSAvatar_record [of s norm a d names net av] by simp
  have made: "updateAccountName norm names s a net nm =
        (Inr (s\<lparr>accountsData :=
                AList.update (norm a) (Record (x\<lparr>ens := (ens x)\<lparr>name := Some nm\<rparr>\<rparr>))
                  (accountsData s)\<rparr>), p) \<and>
      updateENSAvatar norm names s a net av =
        (Inr (s\<lparr>accountsData :=
                AList.update (norm a) (Record (x\<lparr>ens := (ens x)\<lparr>avatarURL := Some av\<rparr>\<rparr>))
                  (accountsData s)\<rparr>), p) \<and>
      (norm (address b) = norm a \<and> network b = net \<longrightarrow>
         applyBalanceUpdate norm names undrafted (accountsData s) b =
           (Inr (AList.update (norm a)
                   (Record (x\<lparr>balances := [(symbol (asset (assetAmount b)), b)]\<rparr>))
                   (accountsData s),
                 norm a # undrafted), p))"
    if "map_of (accountsData s) (norm a) = Some Loading"
      and "newAccountData names (norm a) net (otherAccountsCount (accountsData s) (norm a)) = (Inr x, p)"
    for x p
    using that updateAccountName_loading [of s norm a names net nm]
      updateENSAvatar_loading [of s norm a names net av]
      applyBalanceUpdate_loading [of "accountsData s" norm b names undrafted]
    by simp
  have failed: "map_of (accountsData s) (norm a) = Some Loading \<and>
    newAccountData names (norm a) net (otherAccountsCount (accountsData s) (norm a)) = (Inl e, namesThrown)
    \<longrightarrow>
      updateAccountName norm names s a net nm = (Inl e, namesThrown) \<and>
      updateENSAvatar norm names s a net av = (Inl e, namesThrown) \<and>
      (norm (address b) = norm a \<and> network b = net \<longrightarrow>
         applyBalanceUpdate norm names undrafted (accountsData s) b = (Inl e, namesThrown))"
    using updateAccountName_loading [of s norm a names net nm]
      updateENSAvatar_loading [of s norm a names net av]
      applyBalanceUpdate_loading [of "accountsData s" norm b names undrafted]
    by simp
  have produced: "map_of (accountsData s) (norm a) = Some Loading \<and> unsignedAddress (norm a) \<and>
    names \<noteq> [] \<and> None \<notin> set names
    \<longrightarrow>
      (\<exists>d1 names1.
         newAccountData names (norm a) net (otherAccountsCount (accountsData s) (norm a)) =
           (Inr d1, names1) \<and>
         Some (defaultName d1) \<in> set names \<and>
         updateAccountName norm names s a net nm =
           (Inr (s\<lparr>accountsData :=
                   AList.update (norm a) (Record (d1\<lparr>ens := (ens d1)\<lparr>name := Some nm\<rparr>\<rparr>))
                     (accountsData s)\<rparr>), names1) \<and>
         updateENSAvatar norm names s a net av =
           (Inr (s\<lparr>accountsData :=
                   AList.update (norm a) (Record (d1\<lparr>ens := (ens d1)\<lparr>avatarURL := Some av\<rparr>\<rparr>))
                     (accountsData s)\<rparr>), names1))"
  proof
    assume h: "map_of (accountsData s) (norm a) = Some Loading \<and> unsignedAddress (norm a) \<and>
      names \<noteq> [] \<and> None \<notin> set names"
    from newAccountData_defined_pool [of "norm a" names net
        "otherAccountsCount (accountsData s) (norm a)"] h
    obtain d1 names1 where n: "newAccountData names (norm a) net
        (otherAccountsCount (accountsData s) (norm a)) = (Inr d1, names1)"
      and m: "Some (defaultName d1) \<in> set names" by blast
    from made [OF _ n] h n m show "\<exists>d1 names1.
         newAccountData names (norm a) net (otherAccountsCount (accountsData s) (norm a)) =
           (Inr d1, names1) \<and>
         Some (defaultName d1) \<in> set names \<and>
         updateAccountName norm names s a net nm =
           (Inr (s\<lparr>accountsData :=
                   AList.update (norm a) (Record (d1\<lparr>ens := (ens d1)\<lparr>name := Some nm\<rparr>\<rparr>))
                     (accountsData s)\<rparr>), names1) \<and>
         updateENSAvatar norm names s a net av =
           (Inr (s\<lparr>accountsData :=
                   AList.update (norm a) (Record (d1\<lparr>ens := (ens d1)\<lparr>avatarURL := Some av\<rparr>\<rparr>))
                     (accountsData s)\<rparr>), names1)"
      by blast
  qed
  from untracked existing made [of d' names'] produced failed show ?thesis by blast
qed

lemma recordState_reached:
  "updateAccountBalance normalizeEVMAddress availableDefaultNames [] loadingState [ethBalance ''0xAB'' 5]
   = (Inr recordState, topaPool)"
  by code_simp

theorem ens_updates_by_entry_witness:
  "map_of (accountsData (initialState :: unit AccountState)) (normalizeEVMAddress ''0xAB'') = None \<and>
   updateAccountName normalizeEVMAddress availableDefaultNames (initialState :: unit AccountState)
     ''0xAB'' () ''tally.eth'' = (Inr initialState, availableDefaultNames) \<and>
   updateENSAvatar normalizeEVMAddress availableDefaultNames (initialState :: unit AccountState)
     ''0xAB'' () ''ipfs://avatar'' = (Inr initialState, availableDefaultNames) \<and>
   map_of (accountsData recordState) (normalizeEVMAddress ''0xAB'') = Some (Record topaRecord) \<and>
   updateAccountName normalizeEVMAddress topaPool recordState ''0xAB'' () ''tally.eth'' =
     (Inr (recordState\<lparr>accountsData :=
        [(''0xab'', Record (topaRecord\<lparr>ens := \<lparr>name = Some ''tally.eth'', avatarURL = None\<rparr>\<rparr>))]\<rparr>),
      topaPool) \<and>
   updateENSAvatar normalizeEVMAddress topaPool recordState ''0xAB'' () ''ipfs://avatar'' =
     (Inr (recordState\<lparr>accountsData :=
        [(''0xab'', Record (topaRecord\<lparr>ens := \<lparr>name = None, avatarURL = Some ''ipfs://avatar''\<rparr>\<rparr>))]\<rparr>),
      topaPool) \<and>
   map_of (accountsData loadingState) (normalizeEVMAddress ''0xAB'') = Some Loading \<and>
   unsignedAddress (normalizeEVMAddress ''0xAB'') \<and>
   availableDefaultNames \<noteq> [] \<and> None \<notin> set availableDefaultNames \<and>
   newAccountData availableDefaultNames (normalizeEVMAddress ''0xAB'') ()
     (otherAccountsCount (accountsData loadingState) (normalizeEVMAddress ''0xAB'')) =
     (Inr (topaRecord\<lparr>balances := []\<rparr>), topaPool) \<and>
   updateAccountName normalizeEVMAddress availableDefaultNames loadingState ''0xAB'' () ''tally.eth'' =
     (Inr (loadingState\<lparr>accountsData :=
        [(''0xab'', Record (topaRecord\<lparr>balances := [],
            ens := \<lparr>name = Some ''tally.eth'', avatarURL = None\<rparr>\<rparr>))]\<rparr>),
      topaPool) \<and>
   updateENSAvatar normalizeEVMAddress availableDefaultNames loadingState ''0xAB'' () ''ipfs://avatar'' =
     (Inr (loadingState\<lparr>accountsData :=
        [(''0xab'', Record (topaRecord\<lparr>balances := [],
            ens := \<lparr>name = None, avatarURL = Some ''ipfs://avatar''\<rparr>\<rparr>))]\<rparr>),
      topaPool) \<and>
   applyBalanceUpdate normalizeEVMAddress availableDefaultNames [] (accountsData loadingState)
     (ethBalance ''0xAB'' 5) = (Inr ([(''0xab'', Record topaRecord)], [''0xab'']), topaPool) \<and>
   map_of (accountsData unreadableState) (normalizeEVMAddress ''0x'') = Some Loading \<and>
   newAccountData availableDefaultNames (normalizeEVMAddress ''0x'') ()
     (otherAccountsCount (accountsData unreadableState) (normalizeEVMAddress ''0x'')) =
     (Inl SyntaxError, availableDefaultNames) \<and>
   updateAccountName normalizeEVMAddress availableDefaultNames unreadableState ''0x'' () ''tally.eth'' =
     (Inl SyntaxError, availableDefaultNames) \<and>
   updateENSAvatar normalizeEVMAddress availableDefaultNames unreadableState ''0x'' () ''ipfs://avatar'' =
     (Inl SyntaxError, availableDefaultNames)"
proof -
  let ?N = normalizeEVMAddress
  have k: "?N ''0xAB'' = ''0xab''" by code_simp
  have h1: "map_of (accountsData (initialState :: unit AccountState)) (?N ''0xAB'') = None"
    by code_simp
  have h2: "map_of (accountsData recordState) (?N ''0xAB'') = Some (Record topaRecord)"
    by code_simp
  have h3: "map_of (accountsData loadingState) (?N ''0xAB'') = Some Loading \<and>
    newAccountData availableDefaultNames (?N ''0xAB'') ()
     (otherAccountsCount (accountsData loadingState) (?N ''0xAB'')) =
     (Inr (topaRecord\<lparr>balances := []\<rparr>), topaPool)"
    by code_simp
  have h4: "?N (address (ethBalance ''0xAB'' 5)) = ?N ''0xAB'' \<and> network (ethBalance ''0xAB'' 5) = ()"
    by code_simp
  have h5: "unsignedAddress (?N ''0xAB'')" by code_simp
  have h6: "availableDefaultNames \<noteq> [] \<and> None \<notin> set availableDefaultNames"
    by (simp add: availableDefaultNames_def)
  have h7: "map_of (accountsData unreadableState) (?N ''0x'') = Some Loading \<and>
    newAccountData availableDefaultNames (?N ''0x'') ()
     (otherAccountsCount (accountsData unreadableState) (?N ''0x'')) =
     (Inl SyntaxError, availableDefaultNames)"
    by code_simp
  have u1: "AList.update ''0xab'' x (accountsData recordState) = [(''0xab'', x)]" for x
    by (simp add: recordState_def)
  have u2: "AList.update ''0xab'' x (accountsData loadingState) = [(''0xab'', x)]" for x
  proof -
    have "accountsData loadingState = [(''0xab'', Loading)]" by code_simp
    then show ?thesis by simp
  qed
  have e1: "ens topaRecord = \<lparr>name = None, avatarURL = None\<rparr>" by (simp add: topaRecord_def)
  have b1: "topaRecord\<lparr>balances := [(symbol (asset (assetAmount (ethBalance ''0xAB'' 5))), ethBalance ''0xAB'' 5)]\<rparr> = topaRecord"
    by (simp add: topaRecord_def ethBalance_def)
  note t1 = ens_updates_by_entry [where s = "initialState :: unit AccountState" and norm = ?N
      and a = "''0xAB''" and names = availableDefaultNames and net = "()"
      and nm = "''tally.eth''" and av = "''ipfs://avatar''"]
  note t2 = ens_updates_by_entry [where s = recordState and norm = ?N
      and a = "''0xAB''" and names = topaPool and net = "()"
      and nm = "''tally.eth''" and av = "''ipfs://avatar''" and d = topaRecord]
  note t3 = ens_updates_by_entry [where s = loadingState and norm = ?N
      and a = "''0xAB''" and names = availableDefaultNames and net = "()"
      and nm = "''tally.eth''" and av = "''ipfs://avatar''"
      and d' = "topaRecord\<lparr>balances := []\<rparr>" and names' = topaPool
      and b = "ethBalance ''0xAB'' 5" and undrafted = "[]"]
  note t4 = ens_updates_by_entry [where s = unreadableState and norm = ?N
      and a = "''0x''" and names = availableDefaultNames and net = "()"
      and nm = "''tally.eth''" and av = "''ipfs://avatar''"
      and e = SyntaxError and namesThrown = availableDefaultNames]
  from t1 h1 have c1: "updateAccountName ?N availableDefaultNames (initialState :: unit AccountState)
     ''0xAB'' () ''tally.eth'' = (Inr initialState, availableDefaultNames)"
    and c2: "updateENSAvatar ?N availableDefaultNames (initialState :: unit AccountState)
     ''0xAB'' () ''ipfs://avatar'' = (Inr initialState, availableDefaultNames)" by blast+
  from t2 h2 have c3: "updateAccountName ?N topaPool recordState ''0xAB'' () ''tally.eth'' =
     (Inr (recordState\<lparr>accountsData :=
        [(''0xab'', Record (topaRecord\<lparr>ens := \<lparr>name = Some ''tally.eth'', avatarURL = None\<rparr>\<rparr>))]\<rparr>),
      topaPool)"
    and c4: "updateENSAvatar ?N topaPool recordState ''0xAB'' () ''ipfs://avatar'' =
     (Inr (recordState\<lparr>accountsData :=
        [(''0xab'', Record (topaRecord\<lparr>ens := \<lparr>name = None, avatarURL = Some ''ipfs://avatar''\<rparr>\<rparr>))]\<rparr>),
      topaPool)"
    by (simp_all add: k u1 e1)
  from t3 h3 h4 have c5: "updateAccountName ?N availableDefaultNames loadingState ''0xAB'' () ''tally.eth'' =
     (Inr (loadingState\<lparr>accountsData :=
        [(''0xab'', Record (topaRecord\<lparr>balances := [],
            ens := \<lparr>name = Some ''tally.eth'', avatarURL = None\<rparr>\<rparr>))]\<rparr>),
      topaPool)"
    and c6: "updateENSAvatar ?N availableDefaultNames loadingState ''0xAB'' () ''ipfs://avatar'' =
     (Inr (loadingState\<lparr>accountsData :=
        [(''0xab'', Record (topaRecord\<lparr>balances := [],
            ens := \<lparr>name = None, avatarURL = Some ''ipfs://avatar''\<rparr>\<rparr>))]\<rparr>),
      topaPool)"
    and c7: "applyBalanceUpdate ?N availableDefaultNames [] (accountsData loadingState)
     (ethBalance ''0xAB'' 5) = (Inr ([(''0xab'', Record topaRecord)], [''0xab'']), topaPool)"
    by (simp_all add: k u2 e1 b1)
  from t4 h7 have c8: "updateAccountName ?N availableDefaultNames unreadableState ''0x'' () ''tally.eth'' =
     (Inl SyntaxError, availableDefaultNames)"
    and c9: "updateENSAvatar ?N availableDefaultNames unreadableState ''0x'' () ''ipfs://avatar'' =
     (Inl SyntaxError, availableDefaultNames)" by blast+
  from h1 c1 c2 h2 c3 c4 h3 h5 h6 c5 c6 c7 h7 c8 c9 show ?thesis by (intro conjI) simp_all
qed

text \<open>
  C8 as stated fails: the address \<open>0x\<close> is loading, \<open>BigInt\<close> cannot read its key, and
  both reducers throw a SyntaxError instead of storing a record.
\<close>

theorem ens_updates_counterexample:
  "map_of (accountsData unreadableState) (normalizeEVMAddress ''0x'') = Some Loading \<and>
   updateAccountName normalizeEVMAddress availableDefaultNames unreadableState ''0x'' () ''tally.eth'' =
     (Inl SyntaxError, availableDefaultNames) \<and>
   updateENSAvatar normalizeEVMAddress availableDefaultNames unreadableState ''0x'' () ''ipfs://avatar'' =
     (Inl SyntaxError, availableDefaultNames)"
  by code_simp

subsection \<open>The default name and avatar of a record\<close>

lemma keepsIdentity_update_other:
  "k \<noteq> k' \<Longrightarrow> map_of (accountsData s) k = Some (Record d) \<Longrightarrow>
     keepsIdentity (s\<lparr>accountsData := AList.update k' e (accountsData s)\<rparr>) k d"
  by (simp add: keepsIdentity_def update_conv')

lemma keepsIdentity_update_same:
  "defaultName d' = defaultName d \<Longrightarrow> defaultAvatar d' = defaultAvatar d \<Longrightarrow>
     keepsIdentity (s\<lparr>accountsData := AList.update k (Record d') (accountsData s)\<rparr>) k d"
  by (simp add: keepsIdentity_def update_conv')

lemma updateAccountName_identity:
  assumes "map_of (accountsData s) k = Some (Record d)"
    and "updateAccountName norm names s a net nm = (Inr s', p)"
  shows "keepsIdentity s' k d"
proof (cases "norm a = k")
  case True
  with assms(1) have r: "map_of (accountsData s) (norm a) = Some (Record d)" by simp
  from assms(2) updateAccountName_record [of s norm a d names net nm, OF r]
  have "s' = s\<lparr>accountsData :=
               AList.update (norm a) (Record (d\<lparr>ens := (ens d)\<lparr>name := Some nm\<rparr>\<rparr>))
                 (accountsData s)\<rparr>" by simp
  then show ?thesis
    using keepsIdentity_update_same [where d' = "d\<lparr>ens := (ens d)\<lparr>name := Some nm\<rparr>\<rparr>" and d = d and s = s and k = k] True
    by simp
next
  case False
  then have ne: "k \<noteq> norm a" by simp
  show ?thesis
  proof (cases "map_of (accountsData s) (norm a)")
    case None
    with assms updateAccountName_untracked [of s norm a names net nm]
    show ?thesis by (simp add: keepsIdentity_def)
  next
    case (Some e)
    from assms(2) obtain base where
      "s' = s\<lparr>accountsData := AList.update (norm a) (Record base) (accountsData s)\<rparr>"
      using Some by (auto simp add: updateAccountName_def Let_def split: prod.splits sum.splits)
    then show ?thesis
      using keepsIdentity_update_other [OF ne assms(1)] by simp
  qed
qed

lemma updateENSAvatar_identity:
  assumes "map_of (accountsData s) k = Some (Record d)"
    and "updateENSAvatar norm names s a net av = (Inr s', p)"
  shows "keepsIdentity s' k d"
proof (cases "norm a = k")
  case True
  with assms(1) have r: "map_of (accountsData s) (norm a) = Some (Record d)" by simp
  from assms(2) updateENSAvatar_record [of s norm a d names net av, OF r]
  have "s' = s\<lparr>accountsData :=
               AList.update (norm a) (Record (d\<lparr>ens := (ens d)\<lparr>avatarURL := Some av\<rparr>\<rparr>))
                 (accountsData s)\<rparr>" by simp
  then show ?thesis
    using keepsIdentity_update_same [where d' = "d\<lparr>ens := (ens d)\<lparr>avatarURL := Some av\<rparr>\<rparr>" and d = d and s = s and k = k] True
    by simp
next
  case False
  then have ne: "k \<noteq> norm a" by simp
  show ?thesis
  proof (cases "map_of (accountsData s) (norm a)")
    case None
    with assms updateENSAvatar_untracked [of s norm a names net av]
    show ?thesis by (simp add: keepsIdentity_def)
  next
    case (Some e)
    from assms(2) obtain base where
      "s' = s\<lparr>accountsData := AList.update (norm a) (Record base) (accountsData s)\<rparr>"
      using Some by (auto simp add: updateENSAvatar_def Let_def split: prod.splits sum.splits)
    then show ?thesis
      using keepsIdentity_update_other [OF ne assms(1)] by simp
  qed
qed

lemma updateAccountBalance_identity:
  assumes "map_of (accountsData s) k = Some (Record d)"
    and "updateAccountBalance norm names undrafted s bs = (Inr s', p)"
  shows "keepsIdentity s' k d"
proof -
  from updateAccountBalance_returns [OF assms(2)] obtain undrafted' where
    "applyBalanceUpdates norm names undrafted (accountsData s) bs =
       (Inr (accountsData s', undrafted'), p)" by blast
  from applyBalanceUpdates_identity [OF this assms(1)]
  show ?thesis by (auto simp add: keepsIdentity_def)
qed

lemma loadAccount_identity:
  assumes "map_of (accountsData s) k = Some (Record d)"
  shows "keepsIdentity (loadAccount norm s a) k d"
proof (cases "map_of (accountsData s) (norm a)")
  case None
  with assms have "k \<noteq> norm a" by auto
  from keepsIdentity_update_other [OF this assms] loadAccount_untracked [of s norm a, OF None]
  show ?thesis by simp
next
  case (Some e)
  with assms loadAccount_tracked [of s norm a e] show ?thesis by (simp add: keepsIdentity_def)
qed

text \<open>
  C9. Where a key has a record, \<open>updateAccountBalance\<close>, \<open>updateAccountName\<close>,
  \<open>updateENSAvatar\<close> (when they return a state) and \<open>loadAccount\<close> leave a record at
  that key with the same \<open>defaultName\<close> and \<open>defaultAvatar\<close>.
\<close>

theorem default_identity_immutable:
  assumes "map_of (accountsData s) k = Some (Record d)"
  shows "(\<forall>s' p. updateAccountBalance norm names undrafted s bs = (Inr s', p) \<longrightarrow> keepsIdentity s' k d) \<and>
         (\<forall>s' p. updateAccountName norm names s a net nm = (Inr s', p) \<longrightarrow> keepsIdentity s' k d) \<and>
         (\<forall>s' p. updateENSAvatar norm names s a net av = (Inr s', p) \<longrightarrow> keepsIdentity s' k d) \<and>
         keepsIdentity (loadAccount norm s a) k d"
  using assms updateAccountBalance_identity [of s k d norm names undrafted bs]
    updateAccountName_identity [of s k d norm names a net nm]
    updateENSAvatar_identity [of s k d norm names a net av]
    loadAccount_identity [of s k d norm a]
  by blast

theorem default_identity_immutable_witness:
  "map_of (accountsData recordState) ''0xab'' = Some (Record topaRecord) \<and>
   \<not> isl (fst (updateAccountBalance normalizeEVMAddress topaPool [] recordState
           [ethBalance ''0xAB'' 9, ethBalance ''0xCD'' 1])) \<and>
   keepsIdentity (projr (fst (updateAccountBalance normalizeEVMAddress topaPool [] recordState
           [ethBalance ''0xAB'' 9, ethBalance ''0xCD'' 1]))) ''0xab'' topaRecord \<and>
   \<not> isl (fst (updateAccountName normalizeEVMAddress topaPool recordState ''0xAB'' () ''tally.eth'')) \<and>
   keepsIdentity (projr (fst (updateAccountName normalizeEVMAddress topaPool recordState
           ''0xAB'' () ''tally.eth''))) ''0xab'' topaRecord \<and>
   \<not> isl (fst (updateENSAvatar normalizeEVMAddress topaPool recordState ''0xAB'' () ''ipfs://avatar'')) \<and>
   keepsIdentity (projr (fst (updateENSAvatar normalizeEVMAddress topaPool recordState
           ''0xAB'' () ''ipfs://avatar''))) ''0xab'' topaRecord \<and>
   keepsIdentity (loadAccount normalizeEVMAddress recordState ''0xCD'') ''0xab'' topaRecord"
proof -
  let ?N = normalizeEVMAddress
  let ?U = "updateAccountBalance ?N topaPool [] recordState [ethBalance ''0xAB'' 9, ethBalance ''0xCD'' 1]"
  let ?A = "updateAccountName ?N topaPool recordState ''0xAB'' () ''tally.eth''"
  let ?V = "updateENSAvatar ?N topaPool recordState ''0xAB'' () ''ipfs://avatar''"
  have h: "map_of (accountsData recordState) ''0xab'' = Some (Record topaRecord)"
    by (simp add: recordState_def)
  have iu: "\<not> isl (fst ?U)" by code_simp
  have ia: "\<not> isl (fst ?A)" by code_simp
  have iv: "\<not> isl (fst ?V)" by code_simp
  note t = default_identity_immutable [OF h, of ?N topaPool "[]"
      "[ethBalance ''0xAB'' 9, ethBalance ''0xCD'' 1]" "''0xAB''" "()" "''tally.eth''"
      "''ipfs://avatar''"]
  note t' = default_identity_immutable [OF h, of ?N topaPool "[]" "[]" "''0xCD''" "()" "[]" "[]"]
  from result_cases [OF iu] obtain su pu where u: "?U = (Inr su, pu)" "projr (fst ?U) = su" by blast
  from result_cases [OF ia] obtain sa pa where a: "?A = (Inr sa, pa)" "projr (fst ?A) = sa" by blast
  from result_cases [OF iv] obtain sv pv where v: "?V = (Inr sv, pv)" "projr (fst ?V) = sv" by blast
  from t u(1) have "keepsIdentity su ''0xab'' topaRecord" by blast
  with u(2) have cu: "keepsIdentity (projr (fst ?U)) ''0xab'' topaRecord" by (simp only:)
  from t a(1) have "keepsIdentity sa ''0xab'' topaRecord" by blast
  with a(2) have ca: "keepsIdentity (projr (fst ?A)) ''0xab'' topaRecord" by (simp only:)
  from t v(1) have "keepsIdentity sv ''0xab'' topaRecord" by blast
  with v(2) have cv: "keepsIdentity (projr (fst ?V)) ''0xab'' topaRecord" by (simp only:)
  from t' have cl: "keepsIdentity (loadAccount ?N recordState ''0xCD'') ''0xab'' topaRecord"
    by blast
  from h iu cu ia ca iv cv cl show ?thesis by (intro conjI)
qed


subsection \<open>The combined portfolio\<close>

lemma amountOrZero_simp:
  "amountOrZero e = (case e of None \<Rightarrow> 0 | Some a \<Rightarrow> amount a)"
  by (simp add: amountOrZero_def split: option.split)

lemma combinedAmount_Cons:
  "combinedAmount sy (a # rest) = symbolAmount sy a + combinedAmount sy rest"
  by (simp add: combinedAmount_def)

lemma combinedAmount_lookup:
  "keyedBySymbol acc \<Longrightarrow>
     combinedAmount sy (Object_values acc) = amountOrZero (map_of acc sy)"
proof (induction acc)
  case Nil
  then show ?case by (simp add: combinedAmount_def Object_values_def amountOrZero_def)
next
  case (Cons p acc)
  obtain k c where p: "p = (k, c)" by (cases p) auto
  from Cons.prems p have kc: "symbol (asset c) = k" and notin: "k \<notin> fst ` set acc"
    and rest: "keyedBySymbol acc"
    by (simp_all add: keyedBySymbol_def)
  from notin have none: "map_of acc k = None" by (simp add: map_of_eq_None_iff)
  note ih = Cons.IH [OF rest]
  show ?case
  proof (cases "sy = k")
    case True
    with ih none kc show ?thesis
      by (simp add: p Object_values_def combinedAmount_Cons symbolAmount_def amountOrZero_simp)
  next
    case False
    with ih kc show ?thesis
      by (simp add: p Object_values_def combinedAmount_Cons symbolAmount_def)
  qed
qed

lemma keyedBySymbol_addCombined:
  assumes "keyedBySymbol acc"
  shows "keyedBySymbol (addCombined acc c)"
proof (cases "symbol (asset c) = ''__proto__''")
  case True
  with assms show ?thesis by (simp add: addCombined_def Let_def)
next
  case False
  have d: "distinct (map fst (addCombined acc c))"
    using assms False by (simp add: addCombined_def keyedBySymbol_def Let_def distinct_update)
  have "list_all (\<lambda>(k, c'). symbol (asset c') = k) (AList.update k v acc)"
    if "symbol (asset v) = k" and "list_all (\<lambda>(k, c'). symbol (asset c') = k) acc" for k v acc
    using that by (induction acc) (auto split: if_splits)
  from this [of "c\<lparr>amount := amountOrZero (map_of acc (symbol (asset c))) + amount c\<rparr>"
      "symbol (asset c)" acc] assms False
  have "list_all (\<lambda>(k, c'). symbol (asset c') = k) (addCombined acc c)"
    by (simp add: addCombined_def keyedBySymbol_def Let_def)
  with d show ?thesis by (simp add: keyedBySymbol_def)
qed

lemma map_of_addCombined:
  "map_of (addCombined acc c) sy =
     (if symbol (asset c) \<noteq> ''__proto__'' \<and> sy = symbol (asset c)
      then Some (c\<lparr>amount := amountOrZero (map_of acc (symbol (asset c))) + amount c\<rparr>)
      else map_of acc sy)"
  by (simp add: addCombined_def Let_def update_conv')

lemma combinedAmount_addCombined:
  assumes "keyedBySymbol acc" and "sy \<noteq> ''__proto__''"
  shows "combinedAmount sy (Object_values (addCombined acc c)) =
           combinedAmount sy (Object_values acc) + symbolAmount sy c"
  unfolding combinedAmount_lookup [OF keyedBySymbol_addCombined [OF assms(1)]]
    combinedAmount_lookup [OF assms(1)] map_of_addCombined
  using assms(2) by (auto simp add: symbolAmount_def amountOrZero_simp)

lemma combinedAmount_addCombined_proto:
  assumes "keyedBySymbol acc"
  shows "combinedAmount ''__proto__'' (Object_values (addCombined acc c)) =
           combinedAmount ''__proto__'' (Object_values acc)"
  unfolding combinedAmount_lookup [OF keyedBySymbol_addCombined [OF assms]]
    combinedAmount_lookup [OF assms] map_of_addCombined
  by auto

lemma foldl_addCombined:
  "keyedBySymbol acc \<Longrightarrow>
     keyedBySymbol (foldl addCombined acc bs) \<and>
     combinedAmount ''__proto__'' (Object_values (foldl addCombined acc bs)) =
       combinedAmount ''__proto__'' (Object_values acc) \<and>
     (sy \<noteq> ''__proto__'' \<longrightarrow>
        combinedAmount sy (Object_values (foldl addCombined acc bs)) =
          combinedAmount sy (Object_values acc) + sum_list (map (symbolAmount sy) bs))"
proof (induction bs arbitrary: acc)
  case Nil
  then show ?case by simp
next
  case (Cons b bs)
  from Cons.IH [OF keyedBySymbol_addCombined [OF Cons.prems], of b]
    combinedAmount_addCombined [OF Cons.prems, of sy b]
    combinedAmount_addCombined_proto [OF Cons.prems, of b]
  show ?case by simp
qed

lemma combineAssets_sum:
  "sy \<noteq> ''__proto__'' \<Longrightarrow>
     combinedAmount sy (combineAssets bs) = sum_list (map (symbolAmount sy) bs)"
proof -
  assume n: "sy \<noteq> ''__proto__''"
  have k: "keyedBySymbol []" by (simp add: keyedBySymbol_def)
  from foldl_addCombined [OF k, of bs sy] n show ?thesis
    by (simp add: combineAssets_def combinedAmount_def Object_values_def)
qed

lemma combineAssets_proto:
  "combinedAmount ''__proto__'' (combineAssets bs) = 0"
proof -
  have k: "keyedBySymbol []" by (simp add: keyedBySymbol_def)
  from foldl_addCombined [OF k, of bs "[]"] show ?thesis
    by (simp add: combineAssets_def combinedAmount_def Object_values_def)
qed

lemma keyed_symbols:
  "list_all (\<lambda>(k, c). symbol (asset c) = k) acc \<Longrightarrow>
     map (\<lambda>a. symbol (asset a)) (map snd acc) = map fst acc"
  by (induction acc) auto

lemma combineAssets_distinct:
  "distinct (map (\<lambda>a. symbol (asset a)) (combineAssets bs))"
proof -
  have k: "keyedBySymbol []" by (simp add: keyedBySymbol_def)
  from foldl_addCombined [OF k, of bs "[]"]
  have kb: "keyedBySymbol (foldl addCombined [] bs)" by simp
  then have "map (\<lambda>a. symbol (asset a)) (map snd (foldl addCombined [] bs)) =
      map fst (foldl addCombined [] bs)"
    by (intro keyed_symbols) (simp add: keyedBySymbol_def)
  moreover from kb have "distinct (map fst (foldl addCombined [] bs))"
    by (simp add: keyedBySymbol_def)
  ultimately show ?thesis
    by (simp only: combineAssets_def Object_values_def)
qed

lemma combinedAccountBalances_sum:
  "sum_list (map (symbolAmount sy) (combinedAccountBalances accts)) = accountsTotal sy accts"
proof (induction accts)
  case Nil
  then show ?case
    by (simp add: combinedAccountBalances_def accountsTotal_def Object_values_def)
next
  case (Cons p accts)
  have step: "combinedAccountBalances (p # accts) =
      (case snd p of Loading \<Rightarrow> []
       | Record d \<Rightarrow> map assetAmount (Object_values (balances d))) @ combinedAccountBalances accts"
    by (simp add: combinedAccountBalances_def Object_values_def)
  have one: "sum_list (map (symbolAmount sy)
      (case snd p of Loading \<Rightarrow> []
       | Record d \<Rightarrow> map assetAmount (Object_values (balances d)))) = recordTotal sy (snd p)"
    by (cases "snd p") (simp_all add: recordTotal_def comp_def)
  have tot: "accountsTotal sy (p # accts) = recordTotal sy (snd p) + accountsTotal sy accts"
    by (simp add: accountsTotal_def Object_values_def)
  show ?case unfolding step tot using Cons.IH one by simp
qed

lemma updateAccountBalance_assets:
  assumes "updateAccountBalance norm names undrafted s bs = (Inr s', names')"
  shows "assets (combinedData s') = combineAssets (combinedAccountBalances (accountsData s'))"
proof -
  obtain r q where a: "applyBalanceUpdates norm names undrafted (accountsData s) bs = (r, q)"
    by (cases "applyBalanceUpdates norm names undrafted (accountsData s) bs") auto
  show ?thesis
  proof (cases r)
    case (Inl e)
    with assms a show ?thesis by (simp add: updateAccountBalance_def)
  next
    case (Inr au)
    obtain accts' undrafted' where au: "au = (accts', undrafted')" by (cases au) auto
    with Inr assms a show ?thesis by (auto simp add: updateAccountBalance_def)
  qed
qed

text \<open>
  C2, as the code computes it. After \<open>updateAccountBalance\<close> (the last call of any sequence
  of calls, from any state), for every asset symbol other than \<open>__proto__\<close> the amount
  that \<open>combinedData.assets\<close> holds for the symbol is the sum, over the integers, of the
  amounts of that symbol in the balances of all records of \<open>accountsData\<close> (a loading
  entry counts nothing), and each symbol has one element in \<open>combinedData.assets\<close> at
  most. For the symbol \<open>__proto__\<close> the \<open>reduce\<close> leaves no element in
  \<open>combinedData.assets\<close>, whatever the records hold: the amount there is \<open>0\<close>.
\<close>

theorem combined_assets_sum_except_proto:
  assumes "updateAccountBalance norm names undrafted s bs = (Inr s', names')"
  shows "(sy \<noteq> ''__proto__'' \<longrightarrow>
            combinedAmount sy (assets (combinedData s')) = accountsTotal sy (accountsData s')) \<and>
         combinedAmount ''__proto__'' (assets (combinedData s')) = 0 \<and>
         distinct (map (\<lambda>a. symbol (asset a)) (assets (combinedData s')))"
  unfolding updateAccountBalance_assets [OF assms]
  by (simp add: combineAssets_sum combinedAccountBalances_sum combineAssets_distinct
      combineAssets_proto)

theorem combined_assets_sum_except_proto_witness:
  "\<not> isl (fst (updateAccountBalance normalizeEVMAddress topaPool []
            (loadAccount normalizeEVMAddress recordState ''0xCD'')
            [ethBalance ''0xCD'' 7, protoBalance ''0xCD'' 5, ethBalance ''0xAB'' 9])) \<and>
   ''ETH'' \<noteq> ''__proto__'' \<and>
   accountsTotal ''ETH'' (accountsData (projr (fst (updateAccountBalance normalizeEVMAddress topaPool []
            (loadAccount normalizeEVMAddress recordState ''0xCD'')
            [ethBalance ''0xCD'' 7, protoBalance ''0xCD'' 5, ethBalance ''0xAB'' 9])))) = 16 \<and>
   combinedAmount ''ETH'' (assets (combinedData (projr (fst (updateAccountBalance normalizeEVMAddress topaPool []
            (loadAccount normalizeEVMAddress recordState ''0xCD'')
            [ethBalance ''0xCD'' 7, protoBalance ''0xCD'' 5, ethBalance ''0xAB'' 9]))))) = 16 \<and>
   combinedAmount ''__proto__'' (assets (combinedData (projr (fst (updateAccountBalance normalizeEVMAddress topaPool []
            (loadAccount normalizeEVMAddress recordState ''0xCD'')
            [ethBalance ''0xCD'' 7, protoBalance ''0xCD'' 5, ethBalance ''0xAB'' 9]))))) = 0 \<and>
   distinct (map (\<lambda>a. symbol (asset a)) (assets (combinedData (projr (fst
      (updateAccountBalance normalizeEVMAddress topaPool []
            (loadAccount normalizeEVMAddress recordState ''0xCD'')
            [ethBalance ''0xCD'' 7, protoBalance ''0xCD'' 5, ethBalance ''0xAB'' 9]))))))"
proof -
  let ?U = "updateAccountBalance normalizeEVMAddress topaPool []
            (loadAccount normalizeEVMAddress recordState ''0xCD'')
            [ethBalance ''0xCD'' 7, protoBalance ''0xCD'' 5, ethBalance ''0xAB'' 9]"
  have i: "\<not> isl (fst ?U)" by code_simp
  have n: "''ETH'' \<noteq> ''__proto__''" by simp
  have tot: "accountsTotal ''ETH'' (accountsData (projr (fst ?U))) = 16" by code_simp
  from result_cases [OF i] obtain s' p' where u: "?U = (Inr s', p')" "projr (fst ?U) = s'"
    by blast
  from combined_assets_sum_except_proto [OF u(1), of "''ETH''"] n
  have "combinedAmount ''ETH'' (assets (combinedData s')) = accountsTotal ''ETH'' (accountsData s')"
    and "combinedAmount ''__proto__'' (assets (combinedData s')) = 0"
    and "distinct (map (\<lambda>a. symbol (asset a)) (assets (combinedData s')))" by simp_all
  with u(2) have c: "combinedAmount ''ETH'' (assets (combinedData (projr (fst ?U)))) =
      accountsTotal ''ETH'' (accountsData (projr (fst ?U)))"
    and p: "combinedAmount ''__proto__'' (assets (combinedData (projr (fst ?U)))) = 0"
    and d: "distinct (map (\<lambda>a. symbol (asset a)) (assets (combinedData (projr (fst ?U)))))"
    by (simp_all only:)
  from c tot have c': "combinedAmount ''ETH'' (assets (combinedData (projr (fst ?U)))) = 16"
    by (simp only:)
  from i n tot c' p d show ?thesis by (intro conjI)
qed

text \<open>
  C2 as stated fails for the symbol \<open>__proto__\<close>. The address \<open>0xAB\<close> is loading and
  \<open>updateAccountBalance\<close> receives one balance for it, of \<open>5\<close> units of an asset with that
  symbol. The record created for the address holds the balance, so the records hold \<open>5\<close>
  units of the symbol, while \<open>combinedData.assets\<close> is empty and holds \<open>0\<close>. A second balance
  of that symbol for the same address, in a later call, makes the reducer throw.
\<close>

theorem combined_assets_miss_proto:
  "updateAccountBalance normalizeEVMAddress availableDefaultNames [] loadingState
       [protoBalance ''0xAB'' 5] = (Inr protoState, topaPool) \<and>
   accountsTotal ''__proto__'' (accountsData protoState) = 5 \<and>
   assets (combinedData protoState) = [] \<and>
   combinedAmount ''__proto__'' (assets (combinedData protoState)) = 0 \<and>
   updateAccountBalance normalizeEVMAddress topaPool [] protoState
       [protoBalance ''0xAB'' 6] = (Inl ImmerError, topaPool)"
  by code_simp

section \<open>Properties of the ERC-20 parsers\<close>

subsection \<open>Transfer logs\<close>

lemma parseLog_cases:
  "parseLog decodeTransfer log =
     (if decodesAsTransfer decodeTransfer log then Some (transferRecord decodeTransfer log) else None)"
  by (auto simp add: parseLog_def tryParseLog_def decodesAsTransfer_def transferRecord_def
      split: sum.splits)

lemma parseLogs_map_filter:
  "parseLogsForERC20Transfers decodeTransfer logs =
     map (transferRecord decodeTransfer) (filter (decodesAsTransfer decodeTransfer) logs)"
  by (induction logs) (simp_all add: parseLogsForERC20Transfers_def parseLog_cases)

text \<open>
  C5. \<open>parseLogsForERC20Transfers\<close> returns a list for every list of logs and every
  behaviour of the decoder: the \<open>catch\<close> absorbs every exception of the callback, and
  nothing outside it throws. A log is dropped exactly when its decoding throws or one of
  \<open>from\<close>, \<open>to\<close>, \<open>amount\<close> is absent; the result is the records of the other logs, in
  the order of the logs, with nothing in the place of a dropped one.
\<close>

theorem parseLogs_keeps_decodable_in_order:
  "parseLogsForERC20Transfers decodeTransfer logs =
     map (transferRecord decodeTransfer) (filter (decodesAsTransfer decodeTransfer) logs) \<and>
   (parseLog decodeTransfer log = None) = (\<not> decodesAsTransfer decodeTransfer log) \<and>
   length (parseLogsForERC20Transfers decodeTransfer logs) \<le> length logs"
proof -
  note m = parseLogs_map_filter [of decodeTransfer logs]
  have "length (filter (decodesAsTransfer decodeTransfer) logs) \<le> length logs" by simp
  with m show ?thesis by (simp add: parseLog_cases)
qed

theorem parseLogs_keeps_decodable_in_order_witness:
  "parseLogsForERC20Transfers sampleDecoder sampleLogs =
     [\<lparr> logContractAddress = ''0xc1'', logAmount = 1000, senderAddress = ''0xaa'', recipientAddress = ''0xbb'' \<rparr>,
      \<lparr> logContractAddress = ''0xc4'', logAmount = 1000, senderAddress = ''0xcc'', recipientAddress = ''0xdd'' \<rparr>] \<and>
   filter (decodesAsTransfer sampleDecoder) sampleLogs = [sampleLogs ! 0, sampleLogs ! 3] \<and>
   parseLog sampleDecoder (sampleLogs ! 1) = None \<and>
   parseLog sampleDecoder (sampleLogs ! 2) = None"
proof -
  have f: "filter (decodesAsTransfer sampleDecoder) sampleLogs = [sampleLogs ! 0, sampleLogs ! 3]"
    by code_simp
  have r: "map (transferRecord sampleDecoder) [sampleLogs ! 0, sampleLogs ! 3] =
     [\<lparr> logContractAddress = ''0xc1'', logAmount = 1000, senderAddress = ''0xaa'', recipientAddress = ''0xbb'' \<rparr>,
      \<lparr> logContractAddress = ''0xc4'', logAmount = 1000, senderAddress = ''0xcc'', recipientAddress = ''0xdd'' \<rparr>]"
    by code_simp
  have n1: "\<not> decodesAsTransfer sampleDecoder (sampleLogs ! 1)" by code_simp
  have n2: "\<not> decodesAsTransfer sampleDecoder (sampleLogs ! 2)" by code_simp
  note t1 = parseLogs_keeps_decodable_in_order [of sampleDecoder sampleLogs "sampleLogs ! 1"]
  note t2 = parseLogs_keeps_decodable_in_order [of sampleDecoder sampleLogs "sampleLogs ! 2"]
  from t1 have "parseLogsForERC20Transfers sampleDecoder sampleLogs =
     map (transferRecord sampleDecoder) (filter (decodesAsTransfer sampleDecoder) sampleLogs)"
    by (rule conjunct1)
  then have c1: "parseLogsForERC20Transfers sampleDecoder sampleLogs =
     [\<lparr> logContractAddress = ''0xc1'', logAmount = 1000, senderAddress = ''0xaa'', recipientAddress = ''0xbb'' \<rparr>,
      \<lparr> logContractAddress = ''0xc4'', logAmount = 1000, senderAddress = ''0xcc'', recipientAddress = ''0xdd'' \<rparr>]"
    by (simp only: f r)
  from t1 n1 have c3: "parseLog sampleDecoder (sampleLogs ! 1) = None" by blast
  from t2 n2 have c4: "parseLog sampleDecoder (sampleLogs ! 2) = None" by blast
  from c1 f c3 c4 show ?thesis by (intro conjI)
qed

subsection \<open>Call data\<close>

lemma functionsOf_ERC20:
  "functionsOf ERC20_INTERFACE = map snd ERC20_FUNCTIONS"
  by (simp add: ERC20_INTERFACE_def ERC20_ABI_def ERC20_FUNCTIONS_def ERC20_EVENTS_def)

lemma sighashes_ERC20:
  "map getSighash (functionsOf ERC20_INTERFACE) =
     [Some [0xdd, 0x62, 0xed, 0x3e], Some [0x09, 0x5e, 0xa7, 0xb3], Some [0x70, 0xa0, 0x82, 0x31],
      Some [0x31, 0x3c, 0xe5, 0x67], Some [0x06, 0xfd, 0xde, 0x03], Some [0x95, 0xd8, 0x9b, 0x41],
      Some [0x18, 0x16, 0x0d, 0xdd], Some [0xa9, 0x05, 0x9c, 0xbb], Some [0x23, 0xb8, 0x72, 0xdd]]"
  by code_simp

lemma sighashes_ERC2612:
  "map getSighash (map snd ERC2612_FUNCTIONS) =
     [Some [0xd5, 0x05, 0xac, 0xcf], Some [0x7e, 0xce, 0xbe, 0x00], Some [0x36, 0x44, 0xe5, 0x15]]"
  by code_simp

lemma getFunction_Inr:
  "getFunction iface sel = Inr f \<Longrightarrow> f \<in> set (functionsOf iface) \<and> getSighash f = Some sel"
  by (auto simp add: getFunction_def find_Some_iff split: option.splits)

lemma getFunction_ERC20_no_permit:
  assumes "Some sel \<in> set (map getSighash (map snd ERC2612_FUNCTIONS))"
  shows "getFunction ERC20_INTERFACE sel = Inl NoMatchingFunction"
proof -
  have "Some sel \<notin> set (map getSighash (functionsOf ERC20_INTERFACE))"
    using assms unfolding sighashes_ERC20 sighashes_ERC2612 by auto
  then have "\<not> (\<exists>f. f \<in> set (functionsOf ERC20_INTERFACE) \<and> getSighash f = Some sel)"
    by (metis image_eqI set_map)
  then have "find (\<lambda>f. getSighash f = Some sel) (functionsOf ERC20_INTERFACE) = None"
    by (simp add: find_None_iff)
  then show ?thesis by (simp add: getFunction_def)
qed

text \<open>
  C6, as the code has it. \<open>parseERC20Tx\<close> decodes against \<open>ERC20_INTERFACE\<close>. A returned
  description is the library's for that interface: its fragment is one of the nine
  ERC-20 functions, with the selector of the data. Call data with the selector of
  \<open>permit\<close>, \<open>nonces\<close> or \<open>DOMAIN_SEPARATOR\<close> gives \<open>undefined\<close>, as every input does on
  which the library throws.
\<close>

theorem parseERC20Tx_erc20_only:
  "(\<forall>d. parseERC20Tx input = Some d \<longrightarrow>
      functionFragment d \<in> snd ` set ERC20_FUNCTIONS \<and>
      getSighash (functionFragment d) = Some (take 4 input) \<and>
      parseTransaction ERC20_INTERFACE input = Inr d) \<and>
   (Some (take 4 input) \<in> set (map getSighash (map snd ERC2612_FUNCTIONS)) \<longrightarrow>
      parseERC20Tx input = None) \<and>
   (parseERC20Tx input = None) = isl (parseTransaction ERC20_INTERFACE input)"
proof (intro conjI allI impI)
  fix d
  assume s: "parseERC20Tx input = Some d"
  then show p: "parseTransaction ERC20_INTERFACE input = Inr d"
    by (simp add: parseERC20Tx_def split: sum.splits)
  then obtain f where f: "getFunction ERC20_INTERFACE (take 4 input) = Inr f"
    and d: "functionFragment d = f"
    by (auto simp add: parseTransaction_def split: sum.splits)
  from getFunction_Inr [OF f] d
  show "functionFragment d \<in> snd ` set ERC20_FUNCTIONS"
    and "getSighash (functionFragment d) = Some (take 4 input)"
    by (simp_all add: functionsOf_ERC20)
next
  assume "Some (take 4 input) \<in> set (map getSighash (map snd ERC2612_FUNCTIONS))"
  from getFunction_ERC20_no_permit [OF this]
  show "parseERC20Tx input = None"
    by (simp add: parseERC20Tx_def parseTransaction_def)
next
  show "(parseERC20Tx input = None) = isl (parseTransaction ERC20_INTERFACE input)"
    by (simp add: parseERC20Tx_def split: sum.splits)
qed

theorem parseERC20Tx_erc20_only_witness:
  "parseERC20Tx ([0xa9, 0x05, 0x9c, 0xbb] @ word32 1 @ word32 2) \<noteq> None \<and>
   functionFragment (the (parseERC20Tx ([0xa9, 0x05, 0x9c, 0xbb] @ word32 1 @ word32 2)))
     \<in> snd ` set ERC20_FUNCTIONS \<and>
   fragmentName (functionFragment (the (parseERC20Tx ([0xa9, 0x05, 0x9c, 0xbb] @ word32 1 @ word32 2))))
     = ''transfer'' \<and>
   Some (take 4 permitCall) \<in> set (map getSighash (map snd ERC2612_FUNCTIONS)) \<and>
   parseERC20Tx permitCall = None"
proof -
  let ?t = "[0xa9, 0x05, 0x9c, 0xbb] @ word32 1 @ word32 2"
  have h1: "parseERC20Tx ?t \<noteq> None" by code_simp
  have h1': "fragmentName (functionFragment (the (parseERC20Tx ?t))) = ''transfer''" by code_simp
  have h2: "Some (take 4 permitCall) \<in> set (map getSighash (map snd ERC2612_FUNCTIONS))"
    by code_simp
  from h1 obtain d where d: "parseERC20Tx ?t = Some d" by auto
  from parseERC20Tx_erc20_only [of ?t] d
  have "functionFragment d \<in> snd ` set ERC20_FUNCTIONS" by blast
  with d have c1: "functionFragment (the (parseERC20Tx ?t)) \<in> snd ` set ERC20_FUNCTIONS" by simp
  from parseERC20Tx_erc20_only [of permitCall] h2
  have c2: "parseERC20Tx permitCall = None" by blast
  from h1 c1 h1' h2 c2 show ?thesis by (intro conjI)
qed

text \<open>
  C6 as stated fails: a well-formed \<open>permit\<close> call matches the interface of ERC-20 with
  ERC-2612, and \<open>parseERC20Tx\<close> returns \<open>undefined\<close> for it.
\<close>

theorem parseERC20Tx_counterexample:
  "\<not> isl (parseTransaction ERC2612_INTERFACE permitCall) \<and>
   parseAsErc20Call_spec permitCall \<noteq> None \<and>
   parseERC20Tx permitCall = None"
  by code_simp


end
